theory Spec2Isabelle
  imports
    Complex_Main
    "HOL-Library.Char_ord"
    "HOL-Library.List_Lexorder"
    "HOL-Library.Product_Lexorder"
begin

section \<open>Strings and labels\<close>

text \<open>
  A Python \<open>str\<close> is modelled by the list of bytes of its UTF-8 encoding. Equality of
  encodings is equality of the strings, and the lexicographic order on the bytes
  (\<open>Char_ord\<close>, \<open>List_Lexorder\<close>) is the code point order Python's \<open>sorted\<close> uses.
  The accented letters of the labels of \<open>app.py\<close> are written as their two bytes.
\<close>

abbreviation a_acute :: string where "a_acute \<equiv> [CHR 0xC3, CHR 0xA1]"
abbreviation e_acute :: string where "e_acute \<equiv> [CHR 0xC3, CHR 0xA9]"
abbreviation o_acute :: string where "o_acute \<equiv> [CHR 0xC3, CHR 0xB3]"
abbreviation n_tilde :: string where "n_tilde \<equiv> [CHR 0xC3, CHR 0xB1]"

definition Lunes :: string where "Lunes = ''Lunes''"
definition Martes :: string where "Martes = ''Martes''"
definition Miercoles :: string where "Miercoles = ''Mi'' @ e_acute @ ''rcoles''"
definition Jueves :: string where "Jueves = ''Jueves''"
definition Viernes :: string where "Viernes = ''Viernes''"
definition Sabado :: string where "Sabado = ''S'' @ a_acute @ ''bado''"
definition Domingo :: string where "Domingo = ''Domingo''"

definition Peaton :: string where "Peaton = ''Peat'' @ o_acute @ ''n''"

definition Se_desconoce :: string where "Se_desconoce = ''Se desconoce''"

definition Mas_de_74 :: string where
  "Mas_de_74 = ''M'' @ a_acute @ ''s de 74 a'' @ n_tilde @ ''os''"

text \<open>The keys of \<open>COLOR_MAP_LESIVIDAD\<close>, in the order of the dictionary literal.\<close>

definition orden_lesividad :: "string list" where
  "orden_lesividad =
     [''Sin asistencia sanitaria'',
      ''Asistencia sanitaria s'' @ o_acute @ ''lo en el lugar del accidente'',
      ''Asistencia sanitaria ambulatoria con posterioridad'',
      ''Atenci'' @ o_acute @ ''n en urgencias sin posterior ingreso'',
      ''Ingreso inferior o igual a 24 horas'',
      ''Ingreso superior a 24 horas'',
      ''Fallecido 24 horas'',
      Se_desconoce]"

section \<open>The data frame\<close>

text \<open>
  A cell of a converted date column: a timestamp (year, month, day) or \<open>NaT\<close>.
\<close>

datatype datetime = Timestamp nat nat nat | NaT

text \<open>
  The cells of the \<open>fecha\<close> column: \<open>read_csv\<close> delivers text or \<open>NaN\<close>; line 98 replaces
  the column by the timestamps \<open>pd.to_datetime\<close> returns.
\<close>

datatype fecha_val = NaN | Str string | Datetime datetime

text \<open>
  A cell of a coordinate column as \<open>read_csv\<close> delivers it: missing, a number, or text
  when the column does not read as numbers.
\<close>

datatype celda = Falta | Numero real | Texto string

text \<open>
  One row of the frame returned by \<open>pd.read_csv\<close>. A missing cell (\<open>NaN\<close>) of a text
  column is \<open>None\<close>. The columns the program never reads are kept in \<open>otros\<close>.
\<close>

record raw_row =
  fecha :: fecha_val
  hora :: "string option"
  coordenada_x_utm :: celda
  coordenada_y_utm :: celda
  positiva_alcohol :: "string option"
  rango_edad :: "string option"
  lesividad :: "string option"
  tipo_persona :: "string option"
  tipo_vehiculo :: "string option"
  sexo :: "string option"
  distrito :: "string option"
  otros :: "(string \<times> string option) list"

text \<open>
  One row of the frame \<open>load_data\<close> returns: the columns of the file and the columns the
  function adds. \<open>hora_dt\<close> counts the seconds from 1900-01-01 00:00:00, the date a time
  without a date is given.
\<close>

record row = raw_row +
  hora_dt :: "nat option"
  hora_num :: "nat option"
  dia_semana :: "string option"
  lon :: "real option"
  lat :: "real option"
  alcohol :: bool

text \<open>
  What aborts \<open>load_data\<close>: an exception of \<open>pd.to_datetime\<close>, an exception of the
  transform, or the \<open>ValueError\<close> of assigning a column of the wrong length.
\<close>

datatype error = ToDatetimeError | TransformError | ValueError

section \<open>Parsing of times\<close>

definition digit :: "char \<Rightarrow> nat option" where
  "digit c = (if CHR ''0'' \<le> c \<and> c \<le> CHR ''9'' then Some (of_char c - 48) else None)"

fun digitos :: "nat \<Rightarrow> string \<Rightarrow> nat option" where
  "digitos acc [] = Some acc"
| "digitos acc (c # cs) =
     (case digit c of None \<Rightarrow> None | Some d \<Rightarrow> digitos (10 * acc + d) cs)"

text \<open>
  A numeric directive of \<open>strptime\<close> (\<open>%H\<close>, \<open>%M\<close>, \<open>%S\<close>): one or two
  digits whose value lies in the directive's range. The digits are the ASCII digits.
\<close>

definition campo :: "nat \<Rightarrow> nat \<Rightarrow> string \<Rightarrow> nat option" where
  "campo lo hi s =
     (if length s = 1 \<or> length s = 2 then
        (case digitos 0 s of
           None \<Rightarrow> None
         | Some n \<Rightarrow> if lo \<le> n \<and> n \<le> hi then Some n else None)
      else None)"

fun split_sep :: "char \<Rightarrow> string \<Rightarrow> string list" where
  "split_sep sep [] = [[]]"
| "split_sep sep (c # cs) =
     (if c = sep then [] # split_sep sep cs
      else (case split_sep sep cs of
              [] \<Rightarrow> [[c]]
            | w # ws \<Rightarrow> (c # w) # ws))"

text \<open>
  \<open>format="%H:%M:%S"\<close>: the whole string has to match. The result is the timestamp
  as seconds from 1900-01-01 00:00:00; \<open>%S\<close> admits 60 and 61, which carry over.
\<close>

definition strptime_HMS :: "string \<Rightarrow> nat option" where
  "strptime_HMS s =
     (case split_sep CHR '':'' s of
        [h, m, sec] \<Rightarrow>
          (case campo 0 23 h of
             None \<Rightarrow> None
           | Some H \<Rightarrow>
               (case campo 0 59 m of
                  None \<Rightarrow> None
                | Some M \<Rightarrow>
                    (case campo 0 61 sec of
                       None \<Rightarrow> None
                     | Some S \<Rightarrow> Some (H * 3600 + M * 60 + S))))
      | _ \<Rightarrow> None)"

text \<open>
  \<open>pd.to_datetime(df["hora"], format="%H:%M:%S", errors="coerce")\<close> on one cell:
  a missing cell and a cell that does not parse give \<open>NaT\<close>.
\<close>

definition to_datetime_coerce :: "string option \<Rightarrow> nat option" where
  "to_datetime_coerce c = (case c of None \<Rightarrow> None | Some s \<Rightarrow> strptime_HMS s)"

text \<open>\<open>.dt.hour\<close> of a timestamp given in seconds.\<close>

definition dt_hour :: "nat \<Rightarrow> nat" where
  "dt_hour t = (t div 3600) mod 24"

section \<open>Day of the week\<close>

definition bisiesto :: "nat \<Rightarrow> bool" where
  "bisiesto y = (if y mod 100 = 0 then y mod 400 = 0 else y mod 4 = 0)"

definition dias_del_mes :: "nat \<Rightarrow> nat \<Rightarrow> nat" where
  "dias_del_mes y m =
     (if m = 2 then (if bisiesto y then 29 else 28)
      else if m = 4 \<or> m = 6 \<or> m = 9 \<or> m = 11 then 30
      else 31)"

definition days_before_year :: "nat \<Rightarrow> nat" where
  "days_before_year y =
     (let y1 = y - 1 in y1 * 365 + y1 div 4 - y1 div 100 + y1 div 400)"

definition days_before_month :: "nat \<Rightarrow> nat \<Rightarrow> nat" where
  "days_before_month y m = sum_list (map (dias_del_mes y) [1..<m])"

definition toordinal :: "nat \<Rightarrow> nat \<Rightarrow> nat \<Rightarrow> nat" where
  "toordinal y m d = days_before_year y + days_before_month y m + d"

definition day_names :: "string list" where
  "day_names =
     [''Monday'', ''Tuesday'', ''Wednesday'', ''Thursday'', ''Friday'', ''Saturday'', ''Sunday'']"

text \<open>\<open>.dt.day_name()\<close>: \<open>NaT\<close> has no name.\<close>

fun day_name :: "datetime \<Rightarrow> string option" where
  "day_name (Timestamp y m d) = Some (day_names ! ((toordinal y m d + 6) mod 7))"
| "day_name NaT = None"

definition orden :: "string list" where
  "orden = [Lunes, Martes, Miercoles, Jueves, Viernes, Sabado, Domingo]"

definition dias_map :: "string \<rightharpoonup> string" where
  "dias_map = map_of (zip day_names orden)"

text \<open>\<open>Series.map(dict)\<close>: a missing cell and a key absent from the dictionary give \<open>NaN\<close>.\<close>

definition map_dict :: "(string \<rightharpoonup> string) \<Rightarrow> string option \<Rightarrow> string option" where
  "map_dict m c = (case c of None \<Rightarrow> None | Some k \<Rightarrow> m k)"

text \<open>\<open>pd.Categorical(values, categories=cats)\<close>: a value outside the categories is \<open>NaN\<close>.\<close>

definition categorical :: "string list \<Rightarrow> string option \<Rightarrow> string option" where
  "categorical cats c =
     (case c of None \<Rightarrow> None | Some v \<Rightarrow> if v \<in> set cats then Some v else None)"

section \<open>\<open>load_data\<close>\<close>

text \<open>\<open>Series.replace({old: new})\<close> and \<open>Series.fillna(v)\<close> on one cell.\<close>

definition replace_val :: "string \<Rightarrow> string \<Rightarrow> string option \<Rightarrow> string option" where
  "replace_val old new c = (if c = Some old then Some new else c)"

definition fillna :: "string \<Rightarrow> string option \<Rightarrow> string option" where
  "fillna v c = (case c of None \<Rightarrow> Some v | Some x \<Rightarrow> Some x)"

text \<open>
  \<open>pd.to_datetime(df["fecha"], dayfirst=True)\<close> is a parameter: it takes the column and
  returns the column of timestamps. Line 98 passes no \<open>errors\<close> argument, so the call may
  raise, which is \<open>None\<close> here. How the library reads a text as a date is not fixed.
\<close>

type_synonym to_datetime = "fecha_val list \<Rightarrow> datetime list option"

text \<open>
  The coordinate transform of \<open>pyproj\<close> (EPSG:25830 to EPSG:4326, \<open>always_xy\<close>) is a
  parameter too: it takes the two UTM columns and returns the arrays \<open>lon\<close> and \<open>lat\<close>, or
  raises, which is \<open>None\<close> here.
\<close>

type_synonym transformer =
  "celda list \<Rightarrow> celda list \<Rightarrow> (real option list \<times> real option list) option"

text \<open>
  The column assignments of \<open>load_data\<close> on one row, given the row's cells of the
  converted date and of the arrays \<open>lon\<close> and \<open>lat\<close>.
\<close>

definition preparar :: "raw_row \<Rightarrow> datetime \<Rightarrow> real option \<Rightarrow> real option \<Rightarrow> row" where
  "preparar r f lo la =
     (let dt = to_datetime_coerce (hora r)
      in \<lparr> fecha = Datetime f,
           hora = hora r,
           coordenada_x_utm = coordenada_x_utm r,
           coordenada_y_utm = coordenada_y_utm r,
           positiva_alcohol = positiva_alcohol r,
           rango_edad = replace_val Mas_de_74 ''> 74'' (rango_edad r),
           lesividad = fillna Se_desconoce (lesividad r),
           tipo_persona = tipo_persona r,
           tipo_vehiculo = tipo_vehiculo r,
           sexo = sexo r,
           distrito = distrito r,
           otros = otros r,
           hora_dt = dt,
           hora_num = map_option dt_hour dt,
           dia_semana = categorical orden (map_dict dias_map (day_name f)),
           lon = lo,
           lat = la,
           alcohol = (positiva_alcohol r = Some ''S'') \<rparr>)"

text \<open>
  \<open>load_data\<close> from the frame \<open>read_csv\<close> returned. The conversion of \<open>fecha\<close> (line 98)
  and the transform (line 110) may raise, and a column can only be assigned when it has
  one cell for every row; the other statements always return.
\<close>

definition load_data :: "to_datetime \<Rightarrow> transformer \<Rightarrow> raw_row list \<Rightarrow> error + row list" where
  "load_data to_datetime transform df =
     (case to_datetime (map fecha df) of
        None \<Rightarrow> Inl ToDatetimeError
      | Some fechas \<Rightarrow>
          if length fechas = length df then
            (case transform (map coordenada_x_utm df) (map coordenada_y_utm df) of
               None \<Rightarrow> Inl TransformError
             | Some (lons, lats) \<Rightarrow>
                 if length lons = length df \<and> length lats = length df then
                   Inr (map (\<lambda>(r, f, lo, la). preparar r f lo la)
                          (zip df (zip fechas (zip lons lats))))
                 else Inl ValueError)
          else Inl ValueError)"

section \<open>The views\<close>

text \<open>
  Every view reads the prepared frame \<open>df\<close> and the value of its controls. A view that
  finds nothing to draw shows a notice (\<open>st.warning\<close>, \<open>st.info\<close>) in place of the chart.
\<close>

datatype 'a salida = Aviso | Grafico 'a

text \<open>\<open>Series.isin(values)\<close> on one cell, for values that are all present.\<close>

definition isin :: "'a option \<Rightarrow> 'a list \<Rightarrow> bool" where
  "isin c vs = (case c of None \<Rightarrow> False | Some v \<Rightarrow> v \<in> set vs)"

text \<open>\<open>Series.dropna()\<close> and \<open>Series.unique()\<close> (order of first appearance).\<close>

definition dropna :: "'a option list \<Rightarrow> 'a list" where
  "dropna col = List.map_filter id col"

definition unique :: "'a list \<Rightarrow> 'a list" where
  "unique xs = rev (remdups (rev xs))"

subsection \<open>1. The map\<close>

text \<open>The three options of the radio button \<open>escenario\<close>.\<close>

datatype escenario = Todo_el_trafico | Solo_graves_o_mortales | Solo_atropellos

definition graves :: "string list" where
  "graves = [''Ingreso superior a 24 horas'', ''Fallecido 24 horas'']"

definition df_map :: "escenario \<Rightarrow> nat \<Rightarrow> row list \<Rightarrow> row list" where
  "df_map escenario hora_mapa df =
     (let df_map = filter (\<lambda>r. lat r \<noteq> None \<and> lon r \<noteq> None)
                     (filter (\<lambda>r. hora_num r = Some hora_mapa) df)
      in if escenario = Solo_graves_o_mortales then
           filter (\<lambda>r. isin (lesividad r) graves) df_map
         else if escenario = Solo_atropellos then
           filter (\<lambda>r. tipo_persona r = Some Peaton) df_map
         else df_map)"

text \<open>
  The hexagon layer reads the position \<open>[lon, lat]\<close> of every row of \<open>df_map\<close>; an empty
  \<open>df_map\<close> gives the warning.
\<close>

definition mapa :: "escenario \<Rightarrow> nat \<Rightarrow> row list \<Rightarrow> (real option \<times> real option) list salida" where
  "mapa escenario hora_mapa df =
     (let d = df_map escenario hora_mapa df
      in if d = [] then Aviso else Grafico (map (\<lambda>r. (lon r, lat r)) d))"

subsection \<open>2. Alcohol at the weekend\<close>

definition df_alc :: "string list \<Rightarrow> row list \<Rightarrow> row list" where
  "df_alc dias_sel df = filter (\<lambda>r. alcohol r \<and> isin (dia_semana r) dias_sel) df"

text \<open>
  \<open>groupby(["hora_num", "dia_semana"], observed=True).size().reset_index(name="n")\<close>:
  one row \<open>(hora_num, dia_semana, n)\<close> for every pair of keys that occurs, sorted by hour
  and then by the position of the day in the categories; a row with a missing key is in
  no group.
\<close>

definition clave :: "row \<Rightarrow> (nat \<times> string) option" where
  "clave r =
     (case hora_num r of
        None \<Rightarrow> None
      | Some h \<Rightarrow> (case dia_semana r of None \<Rightarrow> None | Some d \<Rightarrow> Some (h, d)))"

definition codigo :: "string \<Rightarrow> nat" where
  "codigo d = length (takeWhile (\<lambda>c. c \<noteq> d) orden)"

definition counts :: "row list \<Rightarrow> (nat \<times> string \<times> nat) list" where
  "counts d =
     map (\<lambda>(h, dia). (h, dia, length (filter (\<lambda>r. clave r = Some (h, dia)) d)))
       (sort_key (\<lambda>(h, dia). (h, codigo dia)) (remdups (List.map_filter clave d)))"

text \<open>
  \<open>px.line(counts, x="hora_num", y="n", color="dia_semana")\<close>: one line for every day
  that occurs in \<open>counts\<close>, with the points \<open>(hora_num, n)\<close> of that day's rows.
\<close>

definition fig_alc :: "(nat \<times> string \<times> nat) list \<Rightarrow> (string \<times> (nat \<times> nat) list) list" where
  "fig_alc cs =
     map (\<lambda>dia. (dia, map (\<lambda>(h, d, n). (h, n)) (filter (\<lambda>(h, d, n). d = dia) cs)))
       (unique (map (\<lambda>(h, d, n). d) cs))"

definition vista_alc :: "string list \<Rightarrow> row list \<Rightarrow> (string \<times> (nat \<times> nat) list) list salida" where
  "vista_alc dias_sel df =
     (let d = df_alc dias_sel df
      in if d \<noteq> [] then Grafico (fig_alc (counts d)) else Aviso)"

subsection \<open>3. Severity by vehicle\<close>

definition todos_los_vehiculos :: "row list \<Rightarrow> string list" where
  "todos_los_vehiculos df = sort (unique (dropna (map tipo_vehiculo df)))"

definition df_vul :: "string list \<Rightarrow> row list \<Rightarrow> row list" where
  "df_vul vehiculos_sel df = filter (\<lambda>r. isin (tipo_vehiculo r) vehiculos_sel) df"

text \<open>
  \<open>px.histogram(df_vul, y="tipo_vehiculo", color="lesividad", barnorm="percent",
  category_orders={"lesividad": orden_lesividad})\<close>. There is one trace for every severity
  that occurs, those of \<open>orden_lesividad\<close> first and in its order. A trace counts its rows
  by vehicle type; \<open>barnorm="percent"\<close> divides every count by the sum of the counts of
  all traces at the same vehicle type and multiplies by 100. The numbers are reals here;
  the \<open>.0f\<close> of \<open>text_auto\<close> only formats the label.
\<close>

definition trazas_vul :: "row list \<Rightarrow> string list" where
  "trazas_vul d =
     (let vistos = unique (dropna (map lesividad d))
      in filter (\<lambda>s. s \<in> set vistos) orden_lesividad
         @ filter (\<lambda>s. s \<notin> set orden_lesividad) vistos)"

definition n_vs :: "row list \<Rightarrow> string \<Rightarrow> string \<Rightarrow> nat" where
  "n_vs d v s = length (filter (\<lambda>r. tipo_vehiculo r = Some v \<and> lesividad r = Some s) d)"

definition total_barra :: "row list \<Rightarrow> string \<Rightarrow> nat" where
  "total_barra d v = sum_list (map (n_vs d v) (trazas_vul d))"

definition porcentaje :: "row list \<Rightarrow> string \<Rightarrow> string \<Rightarrow> real" where
  "porcentaje d v s = 100 * real (n_vs d v s) / real (total_barra d v)"

definition fig_vul :: "row list \<Rightarrow> (string \<times> (string \<times> real) list) list" where
  "fig_vul d =
     map (\<lambda>s. (s, map (\<lambda>v. (v, porcentaje d v s))
                   (filter (\<lambda>v. 0 < n_vs d v s) (unique (dropna (map tipo_vehiculo d))))))
       (trazas_vul d)"

text \<open>\<open>if vehiculos_sel:\<close> has no \<open>else\<close>: an empty selection draws nothing.\<close>

definition vista_vul :: "string list \<Rightarrow> row list \<Rightarrow> (string \<times> (string \<times> real) list) list option" where
  "vista_vul vehiculos_sel df =
     (if vehiculos_sel \<noteq> [] then Some (fig_vul (df_vul vehiculos_sel df)) else None)"

text \<open>The bars of one vehicle type, over all traces of a figure.\<close>

definition barras_de :: "string \<Rightarrow> (string \<times> (string \<times> real) list) list \<Rightarrow> real list" where
  "barras_de v fig = concat (map (\<lambda>(s, bs). map snd (filter (\<lambda>(v', p). v' = v) bs)) fig)"

subsection \<open>4. The age pyramid\<close>

definition y_age :: "row list \<Rightarrow> string list" where
  "y_age df = sort (unique (dropna (map rango_edad df)))"

text \<open>
  \<open>groupby(col).size()\<close>: the sizes of the groups, indexed by the sorted keys; missing
  keys are dropped. \<open>reindex(idx, fill_value=v)\<close>: the series over the index \<open>idx\<close>, with
  \<open>v\<close> where the old index has no such label.
\<close>

definition groupby_size :: "string option list \<Rightarrow> (string \<times> nat) list" where
  "groupby_size col =
     map (\<lambda>k. (k, length (filter (\<lambda>c. c = Some k) col))) (sort (unique (dropna col)))"

definition reindex :: "string list \<Rightarrow> nat \<Rightarrow> (string \<times> nat) list \<Rightarrow> (string \<times> nat) list" where
  "reindex idx fill_value s =
     map (\<lambda>k. (k, case map_of s k of None \<Rightarrow> fill_value | Some n \<Rightarrow> n)) idx"

definition df_m :: "row list \<Rightarrow> (string \<times> nat) list" where
  "df_m df =
     reindex (y_age df) 0
       (groupby_size (map rango_edad (filter (\<lambda>r. sexo r = Some ''Hombre'') df)))"

definition df_f :: "row list \<Rightarrow> (string \<times> nat) list" where
  "df_f df =
     reindex (y_age df) 0
       (groupby_size (map rango_edad (filter (\<lambda>r. sexo r = Some ''Mujer'') df)))"

section \<open>The times the format accepts\<close>

text \<open>
  The format \<open>%H:%M:%S\<close> in words: an hour from 0 to 23, a minute from 0 to 59 and a
  second from 0 to 61, each written with one or two decimal digits, separated by colons.
  \<open>textos_HMS H M S\<close> lists the spellings of one time.
\<close>

definition digito :: "nat \<Rightarrow> char" where
  "digito d = ''0123456789'' ! d"

definition decimales :: "nat \<Rightarrow> string list" where
  "decimales n =
     (if n < 10 then [[digito n], [digito 0, digito n]]
      else [[digito (n div 10), digito (n mod 10)]])"

definition textos_HMS :: "nat \<Rightarrow> nat \<Rightarrow> nat \<Rightarrow> string list" where
  "textos_HMS H M S =
     concat (map (\<lambda>h. concat (map (\<lambda>m. map (\<lambda>s. h @ '':'' @ m @ '':'' @ s) (decimales S))
                                 (decimales M)))
                 (decimales H))"

section \<open>Example frames\<close>

text \<open>
  Stand-ins for the two library calls, used by the examples only. The date conversion
  knows the two dates of the example frame and raises on any other text. The transform
  is linear around the central meridian of UTM zone 30, missing where a coordinate is
  missing, and raises on text.
\<close>

fun fecha_ej :: "fecha_val \<Rightarrow> datetime option" where
  "fecha_ej NaN = Some NaT"
| "fecha_ej (Datetime t) = Some t"
| "fecha_ej (Str s) =
     (if s = ''13/01/2024'' then Some (Timestamp 2024 1 13)
      else if s = ''19/01/2024'' then Some (Timestamp 2024 1 19)
      else None)"

definition to_datetime_ej :: to_datetime where
  "to_datetime_ej col = those (map fecha_ej col)"

fun punto_ej :: "celda \<Rightarrow> celda \<Rightarrow> (real option \<times> real option) option" where
  "punto_ej (Texto a) y = None"
| "punto_ej x (Texto b) = None"
| "punto_ej (Numero a) (Numero b) = Some (Some ((a - 500000) / 85000 - 3), Some (b / 111000))"
| "punto_ej x y = Some (None, None)"

definition transform_ej :: transformer where
  "transform_ej xs ys =
     (if length xs = length ys then
        map_option (\<lambda>ps. (map fst ps, map snd ps)) (those (map2 punto_ej xs ys))
      else None)"

text \<open>
  A frame of three rows as \<open>read_csv\<close> delivers it, and the frame \<open>load_data\<close> makes of it:
  a pedestrian admitted for more than 24 hours at 19 h, a driver of unknown severity at
  19 h, and a pedestrian who died at 8 h.
\<close>

definition De_25_a_29 :: string where
  "De_25_a_29 = ''De 25 a 29 a'' @ n_tilde @ ''os''"

definition tabla_raw :: "raw_row list" where
  "tabla_raw =
     [\<lparr> fecha = Str ''13/01/2024'', hora = Some ''19:30:00'',
        coordenada_x_utm = Numero 440500, coordenada_y_utm = Numero 4484400,
        positiva_alcohol = Some ''N'', rango_edad = Some Mas_de_74,
        lesividad = Some ''Ingreso superior a 24 horas'', tipo_persona = Some Peaton,
        tipo_vehiculo = Some ''Turismo'', sexo = Some ''Mujer'',
        distrito = Some ''CENTRO'', otros = [(''num_expediente'', Some ''2024S000001'')] \<rparr>,
      \<lparr> fecha = Str ''13/01/2024'', hora = Some ''19:05:00'',
        coordenada_x_utm = Numero 449000, coordenada_y_utm = Numero 4495500,
        positiva_alcohol = Some ''S'', rango_edad = Some De_25_a_29,
        lesividad = None, tipo_persona = Some ''Conductor'',
        tipo_vehiculo = Some ''Motocicleta > 125cc'', sexo = Some ''Hombre'',
        distrito = Some ''RETIRO'', otros = [(''num_expediente'', Some ''2024S000002'')] \<rparr>,
      \<lparr> fecha = Str ''19/01/2024'', hora = Some ''8:15:00'',
        coordenada_x_utm = Numero 432000, coordenada_y_utm = Numero 4473300,
        positiva_alcohol = None, rango_edad = Some De_25_a_29,
        lesividad = Some ''Fallecido 24 horas'', tipo_persona = Some Peaton,
        tipo_vehiculo = Some ''Turismo'', sexo = Some ''Hombre'',
        distrito = Some ''LATINA'', otros = [(''num_expediente'', Some ''2024S000003'')] \<rparr>]"

definition tabla :: "row list" where
  "tabla =
     [\<lparr> fecha = Datetime (Timestamp 2024 1 13), hora = Some ''19:30:00'',
        coordenada_x_utm = Numero 440500, coordenada_y_utm = Numero 4484400,
        positiva_alcohol = Some ''N'', rango_edad = Some ''> 74'',
        lesividad = Some ''Ingreso superior a 24 horas'', tipo_persona = Some Peaton,
        tipo_vehiculo = Some ''Turismo'', sexo = Some ''Mujer'',
        distrito = Some ''CENTRO'', otros = [(''num_expediente'', Some ''2024S000001'')],
        hora_dt = Some 70200, hora_num = Some 19, dia_semana = Some Sabado,
        lon = Some (- 37 / 10), lat = Some (202 / 5), alcohol = False \<rparr>,
      \<lparr> fecha = Datetime (Timestamp 2024 1 13), hora = Some ''19:05:00'',
        coordenada_x_utm = Numero 449000, coordenada_y_utm = Numero 4495500,
        positiva_alcohol = Some ''S'', rango_edad = Some De_25_a_29,
        lesividad = Some Se_desconoce, tipo_persona = Some ''Conductor'',
        tipo_vehiculo = Some ''Motocicleta > 125cc'', sexo = Some ''Hombre'',
        distrito = Some ''RETIRO'', otros = [(''num_expediente'', Some ''2024S000002'')],
        hora_dt = Some 68700, hora_num = Some 19, dia_semana = Some Sabado,
        lon = Some (- 18 / 5), lat = Some (81 / 2), alcohol = True \<rparr>,
      \<lparr> fecha = Datetime (Timestamp 2024 1 19), hora = Some ''8:15:00'',
        coordenada_x_utm = Numero 432000, coordenada_y_utm = Numero 4473300,
        positiva_alcohol = None, rango_edad = Some De_25_a_29,
        lesividad = Some ''Fallecido 24 horas'', tipo_persona = Some Peaton,
        tipo_vehiculo = Some ''Turismo'', sexo = Some ''Hombre'',
        distrito = Some ''LATINA'', otros = [(''num_expediente'', Some ''2024S000003'')],
        hora_dt = Some 29700, hora_num = Some 8, dia_semana = Some Viernes,
        lon = Some (- 19 / 5), lat = Some (403 / 10), alcohol = False \<rparr>]"

text \<open>
  A row of malformed cells: no date, an hour that does not exist, no coordinates, labels
  outside the vocabularies; and the same row with a date cell that is no date.
\<close>

definition fila_rara :: raw_row where
  "fila_rara =
     \<lparr> fecha = NaN, hora = Some ''25:00:00'',
       coordenada_x_utm = Falta, coordenada_y_utm = Falta,
       positiva_alcohol = Some ''s'', rango_edad = None,
       lesividad = Some ''Leve'', tipo_persona = Some ''Testigo'',
       tipo_vehiculo = None, sexo = Some ''Desconocido'',
       distrito = None, otros = [] \<rparr>"

definition fila_rara_df :: row where
  "fila_rara_df =
     \<lparr> fecha = Datetime NaT, hora = Some ''25:00:00'',
       coordenada_x_utm = Falta, coordenada_y_utm = Falta,
       positiva_alcohol = Some ''s'', rango_edad = None,
       lesividad = Some ''Leve'', tipo_persona = Some ''Testigo'',
       tipo_vehiculo = None, sexo = Some ''Desconocido'',
       distrito = None, otros = [],
       hora_dt = None, hora_num = None, dia_semana = None,
       lon = None, lat = None, alcohol = False \<rparr>"

definition fila_sin_fecha :: raw_row where
  "fila_sin_fecha = fila_rara\<lparr>fecha := Str ''sin fecha''\<rparr>"

section \<open>Properties of \<open>load_data\<close>\<close>

lemma preparar_fields:
  "fecha (preparar r f lo la) = Datetime f"
  "hora (preparar r f lo la) = hora r"
  "coordenada_x_utm (preparar r f lo la) = coordenada_x_utm r"
  "coordenada_y_utm (preparar r f lo la) = coordenada_y_utm r"
  "positiva_alcohol (preparar r f lo la) = positiva_alcohol r"
  "rango_edad (preparar r f lo la) = replace_val Mas_de_74 ''> 74'' (rango_edad r)"
  "lesividad (preparar r f lo la) = fillna Se_desconoce (lesividad r)"
  "tipo_persona (preparar r f lo la) = tipo_persona r"
  "tipo_vehiculo (preparar r f lo la) = tipo_vehiculo r"
  "sexo (preparar r f lo la) = sexo r"
  "distrito (preparar r f lo la) = distrito r"
  "otros (preparar r f lo la) = otros r"
  "hora_dt (preparar r f lo la) = to_datetime_coerce (hora r)"
  "hora_num (preparar r f lo la) = map_option dt_hour (to_datetime_coerce (hora r))"
  "dia_semana (preparar r f lo la) = categorical orden (map_dict dias_map (day_name f))"
  "lon (preparar r f lo la) = lo"
  "lat (preparar r f lo la) = la"
  "alcohol (preparar r f lo la) = (positiva_alcohol r = Some ''S'')"
  by (simp_all add: preparar_def Let_def)

lemma load_data_Inr:
  assumes "load_data to_datetime transform raw = Inr df"
  shows "\<exists>fechas lons lats.
           to_datetime (map fecha raw) = Some fechas
         \<and> transform (map coordenada_x_utm raw) (map coordenada_y_utm raw) = Some (lons, lats)
         \<and> length fechas = length raw \<and> length lons = length raw \<and> length lats = length raw
         \<and> length df = length raw
         \<and> (\<forall>i<length raw. df ! i = preparar (raw ! i) (fechas ! i) (lons ! i) (lats ! i))"
proof -
  from assms obtain fechas lons lats where
    f: "to_datetime (map fecha raw) = Some fechas"
    and t: "transform (map coordenada_x_utm raw) (map coordenada_y_utm raw) = Some (lons, lats)"
    and len: "length fechas = length raw" "length lons = length raw" "length lats = length raw"
    and df: "df = map (\<lambda>(r, f, lo, la). preparar r f lo la) (zip raw (zip fechas (zip lons lats)))"
    by (auto simp: load_data_def split: option.splits if_splits prod.splits)
  have "length df = length raw"
    using df len by simp
  moreover have "df ! i = preparar (raw ! i) (fechas ! i) (lons ! i) (lats ! i)"
    if "i < length raw" for i
    using that df len by simp
  ultimately show ?thesis
    using f t len by blast
qed

lemma load_data_length:
  "load_data to_datetime transform raw = Inr df \<Longrightarrow> length df = length raw"
  using load_data_Inr by blast

lemma load_data_row:
  assumes "load_data to_datetime transform raw = Inr df" and "i < length raw"
  shows "\<exists>f lo la. df ! i = preparar (raw ! i) f lo la"
  using load_data_Inr [OF assms(1)] assms(2) by blast

lemma dt_hour_lt: "dt_hour t \<le> 23"
  by (simp add: dt_hour_def)

lemma campo_bounds: "campo lo hi s = Some n \<Longrightarrow> lo \<le> n \<and> n \<le> hi"
  by (auto simp: campo_def split: if_splits option.splits)

lemma strptime_HMS_Some:
  assumes "strptime_HMS s = Some t"
  shows "\<exists>h m sec H M S. split_sep CHR '':'' s = [h, m, sec] \<and> campo 0 23 h = Some H
           \<and> campo 0 59 m = Some M \<and> campo 0 61 sec = Some S \<and> t = H * 3600 + M * 60 + S"
  using assms by (auto simp: strptime_HMS_def split: list.splits option.splits)

lemma dt_hour_HMS: "H \<le> 23 \<Longrightarrow> M \<le> 59 \<Longrightarrow> S \<le> 59 \<Longrightarrow> dt_hour (H * 3600 + M * 60 + S) = H"
  by (simp add: dt_hour_def div_nat_eqI)

lemma dt_hour_carry:
  assumes "H \<le> 23" and "M \<le> 59" and "S = 60 \<or> S = 61"
  shows "dt_hour (H * 3600 + M * 60 + S) = (H * 60 + M + 1) div 60 mod 24"
proof -
  have "(H * 3600 + M * 60 + S) div 3600 = (H * 60 + M + 1) div 60"
    using assms by (auto simp: div_nat_eqI)
  then show ?thesis by (simp add: dt_hour_def)
qed

subsection \<open>The example frames\<close>

lemmas label_defs = Lunes_def Martes_def Miercoles_def Jueves_def Viernes_def Sabado_def
  Domingo_def Peaton_def Se_desconoce_def Mas_de_74_def De_25_a_29_def

lemmas parse_defs = strptime_HMS_def campo_def digit_def to_datetime_coerce_def dt_hour_def

lemmas dia_defs = dias_del_mes_def bisiesto_def days_before_year_def days_before_month_def
  toordinal_def day_names_def orden_def dias_map_def map_dict_def categorical_def

lemma tabla_load: "load_data to_datetime_ej transform_ej tabla_raw = Inr tabla"
  by (simp add: load_data_def to_datetime_ej_def transform_ej_def tabla_raw_def tabla_def
      preparar_def replace_val_def fillna_def label_defs parse_defs dia_defs Let_def)

lemma fila_rara_load: "load_data to_datetime_ej transform_ej [fila_rara] = Inr [fila_rara_df]"
  by (simp add: load_data_def to_datetime_ej_def transform_ej_def fila_rara_def fila_rara_df_def
      preparar_def replace_val_def fillna_def label_defs parse_defs dia_defs Let_def)

lemma fila_sin_fecha_raises: "to_datetime_ej (map fecha [fila_sin_fecha]) = None"
  by (simp add: to_datetime_ej_def fila_sin_fecha_def fila_rara_def)

section \<open>The parser accepts the times of the format and no other text\<close>

lemma lt10_cases:
  "d < 10 \<Longrightarrow> d = 0 \<or> d = 1 \<or> d = 2 \<or> d = 3 \<or> d = 4 \<or> d = 5 \<or> d = 6 \<or> d = 7 \<or> d = 8 \<or> d = (9::nat)"
  by arith

lemma digit_digito: "d < 10 \<Longrightarrow> digit (digito d) = Some d"
  by (drule lt10_cases) (auto simp: digit_def digito_def)

lemma digito_not_colon: "d < 10 \<Longrightarrow> digito d \<noteq> CHR '':''"
  by (drule lt10_cases) (auto simp: digito_def)

lemma digit_Some:
  assumes "digit c = Some d"
  shows "d < 10 \<and> c = digito d"
proof -
  from assms have b: "48 \<le> (of_char c :: nat)" "(of_char c :: nat) \<le> 57" and d: "d = of_char c - 48"
    by (auto simp: digit_def less_eq_char_def split: if_splits)
  then have lt: "d < 10" by simp
  have "(of_char c :: nat) = 48 + d" using b d by simp
  moreover have "(of_char (digito d) :: nat) = 48 + d"
    using lt10_cases [OF lt] by (auto simp: digito_def)
  ultimately have "(of_char c :: nat) = of_char (digito d)" by simp
  then show ?thesis using lt by simp
qed

lemma digitos_two:
  "digitos 0 [a, b] = Some n \<longleftrightarrow> (\<exists>x y. digit a = Some x \<and> digit b = Some y \<and> n = 10 * x + y)"
  by (auto split: option.splits)

lemma campo_decimales:
  assumes "campo lo hi s = Some n"
  shows "n < 100 \<and> s \<in> set (decimales n) \<and> lo \<le> n \<and> n \<le> hi"
proof -
  from assms have len: "length s = 1 \<or> length s = 2" and d: "digitos 0 s = Some n"
    and b: "lo \<le> n" "n \<le> hi"
    by (auto simp: campo_def split: if_splits option.splits)
  from len show ?thesis
  proof
    assume "length s = 1"
    then obtain a where s: "s = [a]" by (cases s) auto
    with d have "digit a = Some n" by (simp split: option.splits)
    from digit_Some [OF this] show ?thesis
      using s b by (simp add: decimales_def)
  next
    assume "length s = 2"
    then obtain a c where s: "s = [a, c]"
      by (cases s; cases "tl s") auto
    with d have "digitos 0 [a, c] = Some n" by simp
    then obtain x y where x: "digit a = Some x" and y: "digit c = Some y" and n: "n = 10 * x + y"
      unfolding digitos_two by blast
    from digit_Some [OF x] digit_Some [OF y] have
      xy: "x < 10" "y < 10" "a = digito x" "c = digito y" by simp_all
    show ?thesis
    proof (cases "n < 10")
      case True
      with n xy have "x = 0" "y = n" by simp_all
      then show ?thesis using s b xy True by (simp add: decimales_def)
    next
      case False
      have "n div 10 = x" "n mod 10 = y" using n xy by simp_all
      then show ?thesis using s b xy False n by (simp add: decimales_def)
    qed
  qed
qed

lemma decimales_campo:
  assumes "s \<in> set (decimales n)" and "n < 100" and "lo \<le> n" and "n \<le> hi"
  shows "campo lo hi s = Some n"
proof (cases "n < 10")
  case True
  have "digit (digito 0) = Some 0" by (simp add: digit_digito)
  then show ?thesis
    using assms True digit_digito [of n] by (auto simp: decimales_def campo_def)
next
  case False
  have "n div 10 < 10" "n mod 10 < 10" using assms(2) by simp_all
  then have "digit (digito (n div 10)) = Some (n div 10)" "digit (digito (n mod 10)) = Some (n mod 10)"
    by (simp_all add: digit_digito)
  then show ?thesis
    using assms False by (auto simp: decimales_def campo_def)
qed

lemma decimales_no_colon:
  assumes "s \<in> set (decimales n)" and "n < 100"
  shows "CHR '':'' \<notin> set s"
proof -
  have "n div 10 < 10" "n mod 10 < 10" "(0::nat) < 10" using assms(2) by simp_all
  then show ?thesis
    using assms digito_not_colon [of n] digito_not_colon [of 0]
      digito_not_colon [of "n div 10"] digito_not_colon [of "n mod 10"]
    by (auto simp: decimales_def split: if_splits)
qed

lemma split_sep_no_sep: "sep \<notin> set w \<Longrightarrow> split_sep sep w = [w]"
  by (induction w) auto

lemma split_sep_append:
  "sep \<notin> set w \<Longrightarrow> split_sep sep (w @ sep # rest) = w # split_sep sep rest"
  by (induction w) auto

lemma split_sep_ne: "split_sep sep s \<noteq> []"
  by (induction s) (auto split: list.splits)

lemma split_sep_Cons:
  "split_sep sep s = w # ws \<Longrightarrow>
     sep \<notin> set w \<and> (if ws = [] then s = w
                     else \<exists>rest. s = w @ sep # rest \<and> split_sep sep rest = ws)"
proof (induction s arbitrary: w ws)
  case Nil
  then show ?case by simp
next
  case (Cons c s)
  show ?case
  proof (cases "c = sep")
    case True
    with Cons.prems split_sep_ne [of sep s] show ?thesis by auto
  next
    case False
    with Cons.prems split_sep_ne [of sep s] obtain w' where
      w': "split_sep sep s = w' # ws" and w: "w = c # w'"
      by (auto split: list.splits)
    from Cons.IH [OF w'] w False show ?thesis
      by (auto split: if_splits)
  qed
qed

lemma split_sep_three:
  "split_sep sep s = [h, m, sec] \<Longrightarrow> s = h @ sep # m @ sep # sec"
proof -
  assume a: "split_sep sep s = [h, m, sec]"
  from split_sep_Cons [OF a] obtain r1 where r1: "s = h @ sep # r1" "split_sep sep r1 = [m, sec]"
    by auto
  from split_sep_Cons [OF r1(2)] obtain r2 where r2: "r1 = m @ sep # r2" "split_sep sep r2 = [sec]"
    by auto
  from split_sep_Cons [OF r2(2)] have "r2 = sec" by simp
  with r1 r2 show ?thesis by simp
qed

lemma set_textos_HMS:
  "set (textos_HMS H M S)
     = {h @ '':'' @ m @ '':'' @ sec | h m sec.
          h \<in> set (decimales H) \<and> m \<in> set (decimales M) \<and> sec \<in> set (decimales S)}"
  by (auto simp: textos_HMS_def)

lemma strptime_HMS_textos:
  assumes "s \<in> set (textos_HMS H M S)" and "H \<le> 23" and "M \<le> 59" and "S \<le> 61"
  shows "strptime_HMS s = Some (H * 3600 + M * 60 + S)"
proof -
  from assms(1) obtain h m sec where
    s: "s = h @ '':'' @ m @ '':'' @ sec"
    and d: "h \<in> set (decimales H)" "m \<in> set (decimales M)" "sec \<in> set (decimales S)"
    unfolding set_textos_HMS by blast
  have lt: "H < 100" "M < 100" "S < 100" using assms(2-4) by simp_all
  have nc: "CHR '':'' \<notin> set h" "CHR '':'' \<notin> set m" "CHR '':'' \<notin> set sec"
    using decimales_no_colon d lt by blast+
  have sp: "split_sep CHR '':'' s = [h, m, sec]"
    unfolding s using nc by (simp add: split_sep_append split_sep_no_sep)
  have c: "campo 0 23 h = Some H" "campo 0 59 m = Some M" "campo 0 61 sec = Some S"
    using decimales_campo d lt assms(2-4) by simp_all
  show ?thesis
    by (simp add: strptime_HMS_def sp c)
qed

lemma strptime_HMS_is_texto:
  assumes "strptime_HMS s = Some t"
  shows "\<exists>H M S. H \<le> 23 \<and> M \<le> 59 \<and> S \<le> 61 \<and> s \<in> set (textos_HMS H M S)
           \<and> t = H * 3600 + M * 60 + S"
proof -
  from strptime_HMS_Some [OF assms] obtain h m sec H M S where
    sp: "split_sep CHR '':'' s = [h, m, sec]"
    and c: "campo 0 23 h = Some H" "campo 0 59 m = Some M" "campo 0 61 sec = Some S"
    and t: "t = H * 3600 + M * 60 + S"
    by blast
  have s: "s = h @ '':'' @ m @ '':'' @ sec"
    using split_sep_three [OF sp] by simp
  have d: "h \<in> set (decimales H)" "m \<in> set (decimales M)" "sec \<in> set (decimales S)"
    and b: "H \<le> 23" "M \<le> 59" "S \<le> 61"
    using campo_decimales [OF c(1)] campo_decimales [OF c(2)] campo_decimales [OF c(3)]
    by simp_all
  have "s \<in> set (textos_HMS H M S)"
    unfolding set_textos_HMS using s d by blast
  then show ?thesis using b t by blast
qed

section \<open>Claims about \<open>load_data\<close>\<close>

text \<open>
  C6. For every row, the severity normalisation gives the label \<open>Se desconoce\<close> to a row
  whose \<open>lesividad\<close> is missing and leaves every \<open>lesividad\<close> that is present as it is.
\<close>

theorem lesividad_fillna:
  assumes "load_data to_datetime transform raw = Inr df" and "i < length raw"
  shows "(lesividad (raw ! i) = None \<longrightarrow> lesividad (df ! i) = Some ''Se desconoce'')
       \<and> (\<forall>v. lesividad (raw ! i) = Some v \<longrightarrow> lesividad (df ! i) = Some v)"
proof -
  from load_data_row [OF assms] obtain f lo la where "df ! i = preparar (raw ! i) f lo la"
    by blast
  then have "lesividad (df ! i) = fillna Se_desconoce (lesividad (raw ! i))"
    by (simp add: preparar_fields)
  then show ?thesis
    by (simp add: fillna_def Se_desconoce_def)
qed

text \<open>
  The rule at the example frame: row 1 has no severity, row 0 has one.
\<close>

theorem lesividad_fillna_witness:
  "load_data to_datetime_ej transform_ej tabla_raw = Inr tabla \<and> (1::nat) < length tabla_raw
   \<and> lesividad (tabla_raw ! 1) = None \<and> lesividad (tabla ! 1) = Some ''Se desconoce''
   \<and> lesividad (tabla_raw ! 0) = Some ''Ingreso superior a 24 horas''
   \<and> lesividad (tabla ! 0) = Some ''Ingreso superior a 24 horas''"
proof -
  have len: "(1::nat) < length tabla_raw" "(0::nat) < length tabla_raw"
    by (simp_all add: tabla_raw_def)
  have raw: "lesividad (tabla_raw ! 1) = None"
    "lesividad (tabla_raw ! 0) = Some ''Ingreso superior a 24 horas''"
    by (simp_all add: tabla_raw_def)
  show ?thesis
    using lesividad_fillna [OF tabla_load len(1)] lesividad_fillna [OF tabla_load len(2)]
      tabla_load len raw
    by simp
qed

text \<open>
  C7. For every row, the flag \<open>alcohol\<close> is true exactly when the column
  \<open>positiva_alcohol\<close> holds the marker \<open>S\<close>; any other cell, a missing one too, gives false.
\<close>

theorem alcohol_exact_match:
  assumes "load_data to_datetime transform raw = Inr df" and "i < length raw"
  shows "alcohol (df ! i) \<longleftrightarrow> positiva_alcohol (raw ! i) = Some ''S''"
proof -
  from load_data_row [OF assms] obtain f lo la where "df ! i = preparar (raw ! i) f lo la"
    by blast
  then show ?thesis
    by (simp add: preparar_fields)
qed

text \<open>
  The rule at the example frame: the markers \<open>N\<close>, \<open>S\<close> and a missing cell.
\<close>

theorem alcohol_exact_match_witness:
  "load_data to_datetime_ej transform_ej tabla_raw = Inr tabla \<and> (2::nat) < length tabla_raw
   \<and> positiva_alcohol (tabla_raw ! 0) = Some ''N'' \<and> \<not> alcohol (tabla ! 0)
   \<and> positiva_alcohol (tabla_raw ! 1) = Some ''S'' \<and> alcohol (tabla ! 1)
   \<and> positiva_alcohol (tabla_raw ! 2) = None \<and> \<not> alcohol (tabla ! 2)"
proof -
  have len: "(0::nat) < length tabla_raw" "(1::nat) < length tabla_raw"
    "(2::nat) < length tabla_raw"
    by (simp_all add: tabla_raw_def)
  have raw: "positiva_alcohol (tabla_raw ! 0) = Some ''N''"
    "positiva_alcohol (tabla_raw ! 1) = Some ''S''"
    "positiva_alcohol (tabla_raw ! 2) = None"
    by (simp_all add: tabla_raw_def)
  show ?thesis
    using alcohol_exact_match [OF tabla_load len(1)] alcohol_exact_match [OF tabla_load len(2)]
      alcohol_exact_match [OF tabla_load len(3)] tabla_load len raw
    by simp
qed

text \<open>
  C8. For every row: a time written as hour, minute and second in the format, with the
  seconds below 60, gets its hour, the number \<open>H\<close> from 0 to 23; a missing cell and a text
  that is no time of the format get no hour; and every hour that is there is the hour of
  the parsed timestamp and lies between 0 and 23. With 60 or 61 seconds, which the format
  admits, the timestamp carries into the next minute and the hour is that of the
  timestamp.
\<close>

theorem hora_num_range:
  assumes "load_data to_datetime transform raw = Inr df" and "i < length raw"
  shows "(\<forall>s H M S. hora (raw ! i) = Some s \<and> s \<in> set (textos_HMS H M S)
            \<and> H \<le> 23 \<and> M \<le> 59 \<and> S \<le> 59
          \<longrightarrow> hora_num (df ! i) = Some H)
       \<and> (\<forall>s H M S. hora (raw ! i) = Some s \<and> s \<in> set (textos_HMS H M S)
            \<and> H \<le> 23 \<and> M \<le> 59 \<and> (S = 60 \<or> S = 61)
          \<longrightarrow> hora_num (df ! i) = Some ((H * 60 + M + 1) div 60 mod 24))
       \<and> (hora (raw ! i) = None \<longrightarrow> hora_num (df ! i) = None)
       \<and> (\<forall>s. hora (raw ! i) = Some s
            \<and> (\<forall>H M S. H \<le> 23 \<and> M \<le> 59 \<and> S \<le> 61 \<longrightarrow> s \<notin> set (textos_HMS H M S))
          \<longrightarrow> hora_num (df ! i) = None)
       \<and> (\<forall>k. hora_num (df ! i) = Some k \<longrightarrow> k \<le> 23)
       \<and> hora_num (df ! i) = map_option dt_hour (hora_dt (df ! i))"
proof -
  from load_data_row [OF assms] obtain f lo la where row: "df ! i = preparar (raw ! i) f lo la"
    by blast
  have num: "hora_num (df ! i) = map_option dt_hour (to_datetime_coerce (hora (raw ! i)))"
    and dt: "hora_dt (df ! i) = to_datetime_coerce (hora (raw ! i))"
    by (simp_all add: row preparar_fields)
  have a: "hora_num (df ! i) = Some H"
    if "hora (raw ! i) = Some s" "s \<in> set (textos_HMS H M S)" "H \<le> 23" "M \<le> 59" "S \<le> 59"
    for s H M S
  proof -
    have "strptime_HMS s = Some (H * 3600 + M * 60 + S)"
      using strptime_HMS_textos [OF that(2,3,4)] that(5) by simp
    then show ?thesis
      using that by (simp add: num to_datetime_coerce_def dt_hour_HMS)
  qed
  have b: "hora_num (df ! i) = Some ((H * 60 + M + 1) div 60 mod 24)"
    if "hora (raw ! i) = Some s" "s \<in> set (textos_HMS H M S)" "H \<le> 23" "M \<le> 59"
      "S = 60 \<or> S = 61"
    for s H M S
  proof -
    have "S \<le> 61" using that(5) by auto
    then have "strptime_HMS s = Some (H * 3600 + M * 60 + S)"
      using strptime_HMS_textos [OF that(2,3,4)] by simp
    then show ?thesis
      using that(1) dt_hour_carry [OF that(3,4,5)] by (simp add: num to_datetime_coerce_def)
  qed
  have c: "hora (raw ! i) = None \<longrightarrow> hora_num (df ! i) = None"
    by (simp add: num to_datetime_coerce_def)
  have d: "hora_num (df ! i) = None"
    if "hora (raw ! i) = Some s"
      "\<forall>H M S. H \<le> 23 \<and> M \<le> 59 \<and> S \<le> 61 \<longrightarrow> s \<notin> set (textos_HMS H M S)" for s
  proof -
    have "strptime_HMS s = None"
    proof (cases "strptime_HMS s")
      case None
      then show ?thesis .
    next
      case (Some t)
      from strptime_HMS_is_texto [OF this] that(2) show ?thesis by blast
    qed
    then show ?thesis
      using that(1) by (simp add: num to_datetime_coerce_def)
  qed
  have e: "\<forall>k. hora_num (df ! i) = Some k \<longrightarrow> k \<le> 23"
    using dt_hour_lt by (auto simp: num)
  have g: "hora_num (df ! i) = map_option dt_hour (hora_dt (df ! i))"
    by (simp add: num dt)
  have a': "\<forall>s H M S. hora (raw ! i) = Some s \<and> s \<in> set (textos_HMS H M S)
            \<and> H \<le> 23 \<and> M \<le> 59 \<and> S \<le> 59 \<longrightarrow> hora_num (df ! i) = Some H"
    using a by blast
  have b': "\<forall>s H M S. hora (raw ! i) = Some s \<and> s \<in> set (textos_HMS H M S)
            \<and> H \<le> 23 \<and> M \<le> 59 \<and> (S = 60 \<or> S = 61)
          \<longrightarrow> hora_num (df ! i) = Some ((H * 60 + M + 1) div 60 mod 24)"
    using b by blast
  have d': "\<forall>s. hora (raw ! i) = Some s
            \<and> (\<forall>H M S. H \<le> 23 \<and> M \<le> 59 \<and> S \<le> 61 \<longrightarrow> s \<notin> set (textos_HMS H M S))
          \<longrightarrow> hora_num (df ! i) = None"
    using d by blast
  show ?thesis
    by (rule conjI [OF a' conjI [OF b' conjI [OF c conjI [OF d' conjI [OF e g]]]]])
qed

text \<open>
  The rule at the examples: \<open>8:15:00\<close> gets the hour 8, \<open>25:00:00\<close> gets none.
\<close>

theorem hora_num_range_witness:
  "load_data to_datetime_ej transform_ej tabla_raw = Inr tabla \<and> (2::nat) < length tabla_raw
   \<and> hora (tabla_raw ! 2) = Some ''8:15:00'' \<and> ''8:15:00'' \<in> set (textos_HMS 8 15 0)
   \<and> hora_num (tabla ! 2) = Some 8
   \<and> load_data to_datetime_ej transform_ej [fila_rara] = Inr [fila_rara_df]
   \<and> hora fila_rara = Some ''25:00:00'' \<and> strptime_HMS ''25:00:00'' = None
   \<and> hora_num fila_rara_df = None"
proof -
  have len: "(2::nat) < length tabla_raw" "(0::nat) < length [fila_rara]"
    by (simp_all add: tabla_raw_def)
  have raw: "hora (tabla_raw ! 2) = Some ''8:15:00''" "hora ([fila_rara] ! 0) = Some ''25:00:00''"
    by (simp_all add: tabla_raw_def fila_rara_def)
  have t: "''8:15:00'' \<in> set (textos_HMS 8 15 0)"
    by (simp add: textos_HMS_def decimales_def digito_def)
  have p: "strptime_HMS ''25:00:00'' = None"
    by (simp add: parse_defs)
  have no: "\<forall>H M S. H \<le> 23 \<and> M \<le> 59 \<and> S \<le> 61 \<longrightarrow> ''25:00:00'' \<notin> set (textos_HMS H M S)"
    using strptime_HMS_textos p by fastforce
  have h8: "hora_num (tabla ! 2) = Some 8"
    using hora_num_range [OF tabla_load len(1), THEN conjunct1] raw(1) t by force
  have hn: "hora_num ([fila_rara_df] ! 0) = None"
    using hora_num_range [OF fila_rara_load len(2), THEN conjunct2, THEN conjunct2,
        THEN conjunct2, THEN conjunct1] raw(2) no by blast
  show ?thesis
    using tabla_load fila_rara_load len raw t p h8 hn by simp
qed

text \<open>
  C9 says that \<open>load_data\<close> leaves every raw column unchanged other than severity, age
  bracket, alcohol, day of the week, coordinates and hour. The column \<open>fecha\<close> is not among
  them, and line 98 overwrites it: the text of the file becomes a timestamp.
\<close>

theorem load_data_changes_fecha_counterexample:
  "load_data to_datetime_ej transform_ej tabla_raw = Inr tabla
   \<and> fecha (tabla_raw ! 0) = Str ''13/01/2024''
   \<and> fecha (tabla ! 0) = Datetime (Timestamp 2024 1 13)
   \<and> fecha (tabla ! 0) \<noteq> fecha (tabla_raw ! 0)"
  using tabla_load by (simp add: tabla_raw_def tabla_def)

text \<open>
  C9, amended. When \<open>load_data\<close> returns a frame, the frame has one row for every row
  read from the file, in the same order, and row \<open>i\<close> is made from row \<open>i\<close>. The column
  \<open>fecha\<close> holds the timestamps the conversion returned for the column of the file, and
  \<open>rango_edad\<close> and \<open>lesividad\<close> are normalised in place; every other column of the file is
  unchanged.
\<close>

theorem load_data_frame:
  assumes "load_data to_datetime transform raw = Inr df"
  shows "length df = length raw
       \<and> (\<exists>fechas. to_datetime (map fecha raw) = Some fechas
             \<and> map fecha df = map Datetime fechas)
       \<and> (\<forall>i<length raw.
            (\<exists>f lo la. df ! i = preparar (raw ! i) f lo la)
          \<and> rango_edad (df ! i) = replace_val Mas_de_74 ''> 74'' (rango_edad (raw ! i))
          \<and> lesividad (df ! i) = fillna Se_desconoce (lesividad (raw ! i))
          \<and> hora (df ! i) = hora (raw ! i)
          \<and> coordenada_x_utm (df ! i) = coordenada_x_utm (raw ! i)
          \<and> coordenada_y_utm (df ! i) = coordenada_y_utm (raw ! i)
          \<and> positiva_alcohol (df ! i) = positiva_alcohol (raw ! i)
          \<and> tipo_persona (df ! i) = tipo_persona (raw ! i)
          \<and> tipo_vehiculo (df ! i) = tipo_vehiculo (raw ! i)
          \<and> sexo (df ! i) = sexo (raw ! i)
          \<and> distrito (df ! i) = distrito (raw ! i)
          \<and> otros (df ! i) = otros (raw ! i))"
proof -
  from load_data_Inr [OF assms] obtain fechas lons lats where
    f: "to_datetime (map fecha raw) = Some fechas"
    and len: "length fechas = length raw" "length df = length raw"
    and row: "\<forall>i<length raw. df ! i = preparar (raw ! i) (fechas ! i) (lons ! i) (lats ! i)"
    by blast
  have "map fecha df = map Datetime fechas"
    by (rule nth_equalityI) (simp_all add: len row preparar_fields)
  with f have a: "\<exists>fechas. to_datetime (map fecha raw) = Some fechas
             \<and> map fecha df = map Datetime fechas"
    by blast
  have b: "\<forall>i<length raw.
            (\<exists>f lo la. df ! i = preparar (raw ! i) f lo la)
          \<and> rango_edad (df ! i) = replace_val Mas_de_74 ''> 74'' (rango_edad (raw ! i))
          \<and> lesividad (df ! i) = fillna Se_desconoce (lesividad (raw ! i))
          \<and> hora (df ! i) = hora (raw ! i)
          \<and> coordenada_x_utm (df ! i) = coordenada_x_utm (raw ! i)
          \<and> coordenada_y_utm (df ! i) = coordenada_y_utm (raw ! i)
          \<and> positiva_alcohol (df ! i) = positiva_alcohol (raw ! i)
          \<and> tipo_persona (df ! i) = tipo_persona (raw ! i)
          \<and> tipo_vehiculo (df ! i) = tipo_vehiculo (raw ! i)
          \<and> sexo (df ! i) = sexo (raw ! i)
          \<and> distrito (df ! i) = distrito (raw ! i)
          \<and> otros (df ! i) = otros (raw ! i)"
  proof (intro allI impI)
    fix i assume "i < length raw"
    with row have r: "df ! i = preparar (raw ! i) (fechas ! i) (lons ! i) (lats ! i)" by blast
    have "\<exists>f lo la. df ! i = preparar (raw ! i) f lo la"
      using r by blast
    then show "(\<exists>f lo la. df ! i = preparar (raw ! i) f lo la)
          \<and> rango_edad (df ! i) = replace_val Mas_de_74 ''> 74'' (rango_edad (raw ! i))
          \<and> lesividad (df ! i) = fillna Se_desconoce (lesividad (raw ! i))
          \<and> hora (df ! i) = hora (raw ! i)
          \<and> coordenada_x_utm (df ! i) = coordenada_x_utm (raw ! i)
          \<and> coordenada_y_utm (df ! i) = coordenada_y_utm (raw ! i)
          \<and> positiva_alcohol (df ! i) = positiva_alcohol (raw ! i)
          \<and> tipo_persona (df ! i) = tipo_persona (raw ! i)
          \<and> tipo_vehiculo (df ! i) = tipo_vehiculo (raw ! i)
          \<and> sexo (df ! i) = sexo (raw ! i)
          \<and> distrito (df ! i) = distrito (raw ! i)
          \<and> otros (df ! i) = otros (raw ! i)"
      by (simp add: r preparar_fields)
  qed
  show ?thesis
    by (rule conjI [OF len(2) conjI [OF a b]])
qed

text \<open>
  The frame rule at the example frame: three rows in, three rows out, the columns kept
  in \<open>otros\<close> untouched, the long age label shortened.
\<close>

theorem load_data_frame_witness:
  "load_data to_datetime_ej transform_ej tabla_raw = Inr tabla
   \<and> length tabla = 3 \<and> length tabla_raw = 3
   \<and> otros (tabla ! 2) = [(''num_expediente'', Some ''2024S000003'')]
   \<and> otros (tabla_raw ! 2) = [(''num_expediente'', Some ''2024S000003'')]
   \<and> rango_edad (tabla_raw ! 0) = Some Mas_de_74 \<and> rango_edad (tabla ! 0) = Some ''> 74''"
proof -
  have raw: "length tabla_raw = 3" "(0::nat) < length tabla_raw" "(2::nat) < length tabla_raw"
    "otros (tabla_raw ! 2) = [(''num_expediente'', Some ''2024S000003'')]"
    "rango_edad (tabla_raw ! 0) = Some Mas_de_74"
    by (simp_all add: tabla_raw_def)
  note T = load_data_frame [OF tabla_load]
  have len: "length tabla = length tabla_raw"
    using T by (rule conjunct1)
  have r2: "otros (tabla ! 2) = otros (tabla_raw ! 2)"
    using T [THEN conjunct2, THEN conjunct2] raw(3) by blast
  have r0: "rango_edad (tabla ! 0) = replace_val Mas_de_74 ''> 74'' (rango_edad (tabla_raw ! 0))"
    using T [THEN conjunct2, THEN conjunct2] raw(2) by blast
  show ?thesis
    using tabla_load raw len r2 r0 by (simp add: replace_val_def)
qed

text \<open>
  C2 says that no malformed cell makes the load abort. Line 98 converts \<open>fecha\<close> without
  \<open>errors="coerce"\<close>, which line 99 passes for \<open>hora\<close>: whenever the conversion of the
  date column raises, \<open>load_data\<close> raises with it and returns no frame.
\<close>

theorem load_data_fecha_raises:
  assumes "to_datetime (map fecha df) = None"
  shows "load_data to_datetime transform df = Inl ToDatetimeError"
  using assms by (simp add: load_data_def)

text \<open>
  The row whose date cell reads \<open>sin fecha\<close>: the conversion raises and so does the load.
\<close>

theorem load_data_fecha_raises_witness:
  "fecha fila_sin_fecha = Str ''sin fecha''
   \<and> to_datetime_ej (map fecha [fila_sin_fecha]) = None
   \<and> load_data to_datetime_ej transform_ej [fila_sin_fecha] = Inl ToDatetimeError"
  using load_data_fecha_raises [of to_datetime_ej "[fila_sin_fecha]" transform_ej]
    fila_sin_fecha_raises
  by (simp add: fila_sin_fecha_def fila_rara_def)

section \<open>Columns, groups and counts\<close>

lemma set_map_filter_conv:
  "set (List.map_filter f xs) = {y. \<exists>x\<in>set xs. f x = Some y}"
  by (induction xs) (auto split: option.splits)

lemma set_dropna: "set (dropna col) = {v. Some v \<in> set col}"
  by (simp add: dropna_def set_map_filter_conv)

lemma set_unique: "set (unique xs) = set xs"
  by (simp add: unique_def)

lemma distinct_unique: "distinct (unique xs)"
  by (simp add: unique_def)

lemma map_of_tabulate:
  "map_of (map (\<lambda>k. (k, f k)) ks) a = (if a \<in> set ks then Some (f a) else None)"
  by (induction ks) auto

lemma groupby_size_lookup:
  "map_of (groupby_size col) a =
     (if Some a \<in> set col then Some (length (filter (\<lambda>c. c = Some a) col)) else None)"
  by (simp add: groupby_size_def map_of_tabulate set_unique set_dropna)

lemma length_filter_absent: "x \<notin> set xs \<Longrightarrow> length (filter (\<lambda>c. c = x) xs) = 0"
  by (induction xs) auto

lemma reindex_groupby_size:
  "reindex idx 0 (groupby_size col) = map (\<lambda>k. (k, length (filter (\<lambda>c. c = Some k) col))) idx"
  by (auto simp: reindex_def groupby_size_lookup length_filter_absent)

lemma length_filter_col:
  "length (filter (\<lambda>c. c = Some a) (map f (filter P xs)))
     = length (filter (\<lambda>r. P r \<and> f r = Some a) xs)"
  by (induction xs) auto

lemma set_y_age: "set (y_age df) = {a. \<exists>r\<in>set df. rango_edad r = Some a}"
  by (auto simp: y_age_def set_unique set_dropna image_iff) metis

lemma filter_eq_distinct:
  "distinct xs \<Longrightarrow> filter (\<lambda>x. x = v) xs = (if v \<in> set xs then [v] else [])"
  by (induction xs) auto

lemma filter_singleton:
  assumes "distinct xs" and "x \<in> set xs" and "\<And>y. y \<in> set xs \<Longrightarrow> P y \<longleftrightarrow> y = x"
  shows "filter P xs = [x]"
proof -
  have "filter P xs = filter (\<lambda>y. y = x) xs"
    by (rule filter_cong) (simp_all add: assms(3))
  then show ?thesis
    using assms(1,2) by (simp add: filter_eq_distinct)
qed

section \<open>Claims about the map\<close>

lemma df_map_subset:
  "r \<in> set (df_map escenario h df) \<Longrightarrow>
     r \<in> set df \<and> hora_num r = Some h \<and> lat r \<noteq> None \<and> lon r \<noteq> None"
  by (auto simp: df_map_def Let_def split: if_splits)

lemma isin_graves:
  "isin c graves \<longleftrightarrow>
     c = Some ''Ingreso superior a 24 horas'' \<or> c = Some ''Fallecido 24 horas''"
  by (cases c) (auto simp: isin_def graves_def)

text \<open>
  C1. Take any prepared frame of three rows, in any order: a pedestrian with a severe or
  fatal injury at 19 h, a driver whose injury is neither at 19 h, and a pedestrian with a
  severe or fatal injury at 8 h, all with coordinates. The map for the hour 19 and the
  scenario of severe or fatal cases shows one point, the one of the first of these rows.
\<close>

theorem mapa_graves_19:
  assumes r1: "tipo_persona r1 = Some Peaton"
      "lesividad r1 = Some ''Ingreso superior a 24 horas''
         \<or> lesividad r1 = Some ''Fallecido 24 horas''"
      "hora_num r1 = Some 19"
    and r2: "tipo_persona r2 = Some ''Conductor''"
      "lesividad r2 \<noteq> Some ''Ingreso superior a 24 horas''"
      "lesividad r2 \<noteq> Some ''Fallecido 24 horas''"
      "hora_num r2 = Some 19"
    and r3: "tipo_persona r3 = Some Peaton"
      "lesividad r3 = Some ''Ingreso superior a 24 horas''
         \<or> lesividad r3 = Some ''Fallecido 24 horas''"
      "hora_num r3 = Some 8"
    and coords: "lat r1 \<noteq> None" "lon r1 \<noteq> None" "lat r2 \<noteq> None" "lon r2 \<noteq> None"
      "lat r3 \<noteq> None" "lon r3 \<noteq> None"
    and df: "length df = 3" "set df = {r1, r2, r3}"
  shows "df_map Solo_graves_o_mortales 19 df = [r1]
       \<and> mapa Solo_graves_o_mortales 19 df = Grafico [(lon r1, lat r1)]"
proof -
  have ne: "r1 \<noteq> r2" "r1 \<noteq> r3" "r2 \<noteq> r3"
    using r1 r2 r3 by auto
  then have "card (set df) = length df"
    using df by simp
  then have dist: "distinct df"
    by (rule card_distinct)
  let ?P = "\<lambda>r. hora_num r = Some 19 \<and> (lat r \<noteq> None \<and> lon r \<noteq> None) \<and> isin (lesividad r) graves"
  have sel: "?P r \<longleftrightarrow> r = r1" if "r \<in> set df" for r
  proof -
    from that df(2) have "r = r1 \<or> r = r2 \<or> r = r3" by simp
    then show ?thesis
      using r1 r2 r3 coords ne by (auto simp: isin_graves)
  qed
  have "df_map Solo_graves_o_mortales 19 df = filter ?P df"
    by (simp add: df_map_def Let_def conj_commute conj_left_commute del: not_None_eq)
  also have "\<dots> = [r1]"
    using dist df(2) sel by (intro filter_singleton) simp_all
  finally have m: "df_map Solo_graves_o_mortales 19 df = [r1]" .
  then show ?thesis
    by (simp add: mapa_def)
qed

text \<open>
  The rule at the example frame, in its order and reversed.
\<close>

theorem mapa_graves_19_witness:
  "length tabla = 3
   \<and> df_map Solo_graves_o_mortales 19 tabla = [tabla ! 0]
   \<and> mapa Solo_graves_o_mortales 19 tabla = Grafico [(Some (- 37 / 10), Some (202 / 5))]
   \<and> mapa Solo_graves_o_mortales 19 (rev tabla) = Grafico [(Some (- 37 / 10), Some (202 / 5))]"
proof -
  have r1: "tipo_persona (tabla ! 0) = Some Peaton"
    "lesividad (tabla ! 0) = Some ''Ingreso superior a 24 horas''
       \<or> lesividad (tabla ! 0) = Some ''Fallecido 24 horas''"
    "hora_num (tabla ! 0) = Some 19"
    by (simp_all add: tabla_def)
  have r2: "tipo_persona (tabla ! 1) = Some ''Conductor''"
    "lesividad (tabla ! 1) \<noteq> Some ''Ingreso superior a 24 horas''"
    "lesividad (tabla ! 1) \<noteq> Some ''Fallecido 24 horas''"
    "hora_num (tabla ! 1) = Some 19"
    by (simp_all add: tabla_def Se_desconoce_def)
  have r3: "tipo_persona (tabla ! 2) = Some Peaton"
    "lesividad (tabla ! 2) = Some ''Ingreso superior a 24 horas''
       \<or> lesividad (tabla ! 2) = Some ''Fallecido 24 horas''"
    "hora_num (tabla ! 2) = Some 8"
    by (simp_all add: tabla_def)
  have coords: "lat (tabla ! 0) \<noteq> None" "lon (tabla ! 0) \<noteq> None"
    "lat (tabla ! 1) \<noteq> None" "lon (tabla ! 1) \<noteq> None"
    "lat (tabla ! 2) \<noteq> None" "lon (tabla ! 2) \<noteq> None"
    by (simp_all add: tabla_def del: not_None_eq)
  have len: "length tabla = 3" "length (rev tabla) = 3"
    by (simp_all add: tabla_def)
  have tab: "tabla = [tabla ! 0, tabla ! 1, tabla ! 2]"
    by (simp add: tabla_def)
  have s: "set tabla = {tabla ! 0, tabla ! 1, tabla ! 2}"
    by (subst tab) simp
  then have s': "set (rev tabla) = {tabla ! 0, tabla ! 1, tabla ! 2}"
    by simp
  have v: "lon (tabla ! 0) = Some (- 37 / 10)" "lat (tabla ! 0) = Some (202 / 5)"
    by (simp_all add: tabla_def)
  show ?thesis
    using mapa_graves_19 [OF r1 r2 r3 coords len(1) s]
      mapa_graves_19 [OF r1 r2 r3 coords len(2) s'] len(1) v
    by simp
qed

text \<open>
  C10. For every frame, hour and scenario, every row of \<open>df_map\<close>, and so every point of
  the map, comes from a row of the frame whose \<open>hora_num\<close> is the chosen hour and whose
  \<open>lat\<close> and \<open>lon\<close> are present; a row without \<open>hora_num\<close> is in no map.
\<close>

theorem df_map_hora_lat_lon:
  "(\<forall>r\<in>set (df_map escenario h df).
       r \<in> set df \<and> hora_num r = Some h \<and> lat r \<noteq> None \<and> lon r \<noteq> None)
   \<and> (\<forall>r\<in>set df. hora_num r = None \<longrightarrow> r \<notin> set (df_map escenario h df))
   \<and> (\<forall>ps. mapa escenario h df = Grafico ps \<longrightarrow>
         (\<forall>p\<in>set ps. \<exists>r\<in>set df. p = (lon r, lat r) \<and> hora_num r = Some h
                                    \<and> lat r \<noteq> None \<and> lon r \<noteq> None))"
proof -
  have a: "\<forall>r\<in>set (df_map escenario h df).
       r \<in> set df \<and> hora_num r = Some h \<and> lat r \<noteq> None \<and> lon r \<noteq> None"
    using df_map_subset by blast
  have b: "\<forall>r\<in>set df. hora_num r = None \<longrightarrow> r \<notin> set (df_map escenario h df)"
    using df_map_subset by fastforce
  have c: "\<forall>p\<in>set ps. \<exists>r\<in>set df. p = (lon r, lat r) \<and> hora_num r = Some h
                                    \<and> lat r \<noteq> None \<and> lon r \<noteq> None"
    if "mapa escenario h df = Grafico ps" for ps
  proof -
    from that have "ps = map (\<lambda>r. (lon r, lat r)) (df_map escenario h df)"
      by (simp add: mapa_def Let_def split: if_splits)
    then show ?thesis using a by auto
  qed
  show ?thesis using a b c by blast
qed

text \<open>
  The rule at the example frame extended by the row of malformed cells, at 19 h.
\<close>

theorem df_map_hora_lat_lon_witness:
  "mapa Todo_el_trafico 19 (tabla @ [fila_rara_df])
     = Grafico [(Some (- 37 / 10), Some (202 / 5)), (Some (- 18 / 5), Some (81 / 2))]
   \<and> fila_rara_df \<in> set (tabla @ [fila_rara_df]) \<and> hora_num fila_rara_df = None
   \<and> fila_rara_df \<notin> set (df_map Todo_el_trafico 19 (tabla @ [fila_rara_df]))
   \<and> tabla ! 0 \<in> set (df_map Todo_el_trafico 19 (tabla @ [fila_rara_df]))
   \<and> hora_num (tabla ! 0) = Some 19 \<and> lat (tabla ! 0) = Some (202 / 5)
   \<and> lon (tabla ! 0) = Some (- 37 / 10)"
proof -
  have m: "mapa Todo_el_trafico 19 (tabla @ [fila_rara_df])
     = Grafico [(Some (- 37 / 10), Some (202 / 5)), (Some (- 18 / 5), Some (81 / 2))]"
    by (simp add: mapa_def df_map_def tabla_def fila_rara_df_def del: not_None_eq)
  have h: "fila_rara_df \<in> set (tabla @ [fila_rara_df])" "hora_num fila_rara_df = None"
    by (simp_all add: fila_rara_df_def)
  note T = df_map_hora_lat_lon [of Todo_el_trafico 19 "tabla @ [fila_rara_df]"]
  have ex: "fila_rara_df \<notin> set (df_map Todo_el_trafico 19 (tabla @ [fila_rara_df]))"
    using T [THEN conjunct2, THEN conjunct1] h by blast
  have r0: "tabla ! 0 \<in> set (df_map Todo_el_trafico 19 (tabla @ [fila_rara_df]))"
    by (simp add: df_map_def tabla_def fila_rara_df_def del: not_None_eq)
  have pt: "hora_num (tabla ! 0) = Some 19 \<and> lat (tabla ! 0) \<noteq> None \<and> lon (tabla ! 0) \<noteq> None"
    using T [THEN conjunct1] r0 by blast
  have v: "lat (tabla ! 0) = Some (202 / 5)" "lon (tabla ! 0) = Some (- 37 / 10)"
    by (simp_all add: tabla_def)
  show ?thesis
    using m h ex r0 pt v by blast
qed

section \<open>Claims about the age pyramid\<close>

text \<open>
  C5. The two series of the pyramid have the same index, \<open>y_age\<close>: the age brackets that
  occur in the whole frame, sorted and without repetition. The entry of a bracket is the
  number of rows of that sex and bracket; where there is none the entry is there and is 0.
\<close>

theorem piramide_alineada:
  "map fst (df_m df) = y_age df \<and> map fst (df_f df) = y_age df
   \<and> sorted (y_age df) \<and> distinct (y_age df)
   \<and> set (y_age df) = {a. \<exists>r\<in>set df. rango_edad r = Some a}
   \<and> (\<forall>a\<in>set (y_age df).
        map_of (df_m df) a
          = Some (length (filter (\<lambda>r. sexo r = Some ''Hombre'' \<and> rango_edad r = Some a) df))
      \<and> map_of (df_f df) a
          = Some (length (filter (\<lambda>r. sexo r = Some ''Mujer'' \<and> rango_edad r = Some a) df))
      \<and> ((\<forall>r\<in>set df. sexo r = Some ''Hombre'' \<longrightarrow> rango_edad r \<noteq> Some a)
            \<longrightarrow> (a, 0) \<in> set (df_m df))
      \<and> ((\<forall>r\<in>set df. sexo r = Some ''Mujer'' \<longrightarrow> rango_edad r \<noteq> Some a)
            \<longrightarrow> (a, 0) \<in> set (df_f df)))"
proof -
  have m: "df_m df = map (\<lambda>k. (k, length (filter (\<lambda>r. sexo r = Some ''Hombre'' \<and> rango_edad r = Some k) df))) (y_age df)"
    by (simp add: df_m_def reindex_groupby_size length_filter_col)
  have f: "df_f df = map (\<lambda>k. (k, length (filter (\<lambda>r. sexo r = Some ''Mujer'' \<and> rango_edad r = Some k) df))) (y_age df)"
    by (simp add: df_f_def reindex_groupby_size length_filter_col)
  have idx: "map fst (df_m df) = y_age df" "map fst (df_f df) = y_age df"
    by (simp_all add: m f o_def)
  have srt: "sorted (y_age df)" "distinct (y_age df)"
    by (simp_all add: y_age_def distinct_unique)
  have look: "map_of (df_m df) a
          = Some (length (filter (\<lambda>r. sexo r = Some ''Hombre'' \<and> rango_edad r = Some a) df))"
     "map_of (df_f df) a
          = Some (length (filter (\<lambda>r. sexo r = Some ''Mujer'' \<and> rango_edad r = Some a) df))"
    if "a \<in> set (y_age df)" for a
    using that by (simp_all add: m f map_of_tabulate)
  have zero: "(a, 0) \<in> set (df_m df)"
    if "a \<in> set (y_age df)" "\<forall>r\<in>set df. sexo r = Some ''Hombre'' \<longrightarrow> rango_edad r \<noteq> Some a" for a
  proof -
    have "filter (\<lambda>r. sexo r = Some ''Hombre'' \<and> rango_edad r = Some a) df = []"
      using that(2) by (auto simp: filter_empty_conv)
    then show ?thesis using that(1) by (force simp: m)
  qed
  have zerof: "(a, 0) \<in> set (df_f df)"
    if "a \<in> set (y_age df)" "\<forall>r\<in>set df. sexo r = Some ''Mujer'' \<longrightarrow> rango_edad r \<noteq> Some a" for a
  proof -
    have "filter (\<lambda>r. sexo r = Some ''Mujer'' \<and> rango_edad r = Some a) df = []"
      using that(2) by (auto simp: filter_empty_conv)
    then show ?thesis using that(1) by (force simp: f)
  qed
  show ?thesis
    using idx srt set_y_age [of df] look zero zerof by blast
qed

lemma tabla_piramide:
  "y_age tabla = [''> 74'', De_25_a_29]"
  "df_m tabla = [(''> 74'', 0), (De_25_a_29, 2)]"
  "df_f tabla = [(''> 74'', 1), (De_25_a_29, 0)]"
  by (simp_all add: df_m_def df_f_def y_age_def tabla_def reindex_def groupby_size_def
      unique_def dropna_def label_defs List.map_filter_simps)

text \<open>
  The rule at the example frame: no man is in the bracket \<open>> 74\<close>, and the series of the
  men holds 0 there.
\<close>

theorem piramide_alineada_witness:
  "y_age tabla = [''> 74'', De_25_a_29]
   \<and> df_m tabla = [(''> 74'', 0), (De_25_a_29, 2)]
   \<and> df_f tabla = [(''> 74'', 1), (De_25_a_29, 0)]
   \<and> ''> 74'' \<in> set (y_age tabla)
   \<and> filter (\<lambda>r. sexo r = Some ''Hombre'' \<and> rango_edad r = Some ''> 74'') tabla = []
   \<and> map_of (df_m tabla) ''> 74'' = Some 0
   \<and> (''> 74'', 0) \<in> set (df_m tabla)"
proof -
  have a: "''> 74'' \<in> set (y_age tabla)"
    by (simp add: tabla_piramide)
  have b: "\<forall>r\<in>set tabla. sexo r = Some ''Hombre'' \<longrightarrow> rango_edad r \<noteq> Some ''> 74''"
    by (simp add: tabla_def label_defs)
  then have c: "filter (\<lambda>r. sexo r = Some ''Hombre'' \<and> rango_edad r = Some ''> 74'') tabla = []"
    by (auto simp: filter_empty_conv)
  show ?thesis
    using piramide_alineada [of tabla] a b c tabla_piramide by simp
qed

section \<open>Claims about the severity by vehicle\<close>

lemma load_data_lesividad:
  assumes "load_data to_datetime transform raw = Inr df" and "r \<in> set df"
  shows "\<exists>s. lesividad r = Some s"
proof -
  from assms(2) obtain i where i: "i < length df" and r: "r = df ! i"
    by (auto simp: in_set_conv_nth)
  have i': "i < length raw"
    using i load_data_length [OF assms(1)] by simp
  from load_data_row [OF assms(1) i'] obtain f lo la where
    "df ! i = preparar (raw ! i) f lo la" by blast
  then have "lesividad (df ! i) = fillna Se_desconoce (lesividad (raw ! i))"
    by (simp add: preparar_fields)
  then show ?thesis
    using r by (simp add: fillna_def split: option.splits)
qed

lemma set_trazas_vul: "set (trazas_vul d) = {s. \<exists>r\<in>set d. lesividad r = Some s}"
  by (auto simp: trazas_vul_def Let_def set_unique set_dropna image_iff) metis+

lemma n_vs_pos_vehiculo:
  "0 < n_vs d v s \<Longrightarrow> v \<in> set (unique (dropna (map tipo_vehiculo d)))"
  by (auto simp: n_vs_def set_unique set_dropna length_greater_0_conv filter_empty_conv image_iff)
    metis

lemma barras_de_traza:
  "map snd (filter (\<lambda>(v', p). v' = v)
       (map (\<lambda>v. (v, porcentaje d v s))
          (filter (\<lambda>v. 0 < n_vs d v s) (unique (dropna (map tipo_vehiculo d))))))
     = (if 0 < n_vs d v s then [porcentaje d v s] else [])"
proof -
  let ?U = "unique (dropna (map tipo_vehiculo d))"
  have "filter (\<lambda>(v', p). v' = v) (map (\<lambda>v. (v, porcentaje d v s)) (filter (\<lambda>v. 0 < n_vs d v s) ?U))
      = map (\<lambda>v. (v, porcentaje d v s)) (filter (\<lambda>v'. 0 < n_vs d v' s) (filter (\<lambda>v'. v' = v) ?U))"
    by (simp add: filter_map o_def conj_commute)
  also have "filter (\<lambda>v'. v' = v) ?U = (if v \<in> set ?U then [v] else [])"
    by (rule filter_eq_distinct) (rule distinct_unique)
  finally show ?thesis
    using n_vs_pos_vehiculo [of d v s] by auto
qed

lemma barras_de_fig_vul:
  "barras_de v (fig_vul d)
     = concat (map (\<lambda>s. if 0 < n_vs d v s then [porcentaje d v s] else []) (trazas_vul d))"
  by (simp add: barras_de_def fig_vul_def o_def barras_de_traza)

lemma sum_list_concat_if:
  "sum_list (concat (map (\<lambda>s. if c s then [f s] else []) xs))
     = sum_list (map (\<lambda>s. if c s then f s else (0::real)) xs)"
  by (induction xs) auto

lemma sum_list_porcentaje:
  "sum_list (map (\<lambda>s. 100 * real (n s) / t) xs) = 100 * real (sum_list (map n xs)) / t"
  by (induction xs) (auto simp: add_divide_distrib distrib_left)

lemma sum_barras_de:
  "sum_list (barras_de v (fig_vul d))
     = 100 * real (total_barra d v) / real (total_barra d v)"
proof -
  have "(\<lambda>s. if 0 < n_vs d v s then porcentaje d v s else 0) = (\<lambda>s. 100 * real (n_vs d v s) / real (total_barra d v))"
    by (auto simp: porcentaje_def)
  then show ?thesis
    by (simp add: barras_de_fig_vul sum_list_concat_if sum_list_porcentaje total_barra_def)
qed

lemma total_barra_pos:
  assumes "r \<in> set d" and "tipo_vehiculo r = Some v" and "lesividad r = Some s"
  shows "0 < total_barra d v"
proof -
  have "s \<in> set (trazas_vul d)"
    using assms by (auto simp: set_trazas_vul)
  then have "n_vs d v s \<le> total_barra d v"
    unfolding total_barra_def by (simp add: member_le_sum_list)
  moreover have "0 < n_vs d v s"
    using assms by (auto simp: n_vs_def length_greater_0_conv filter_empty_conv)
  ultimately show ?thesis by simp
qed

lemma n_vs_df_vul_unselected:
  "v \<notin> set vehiculos_sel \<Longrightarrow> n_vs (df_vul vehiculos_sel df) v s = 0"
  by (auto simp: n_vs_def df_vul_def isin_def filter_empty_conv)

lemma df_vul_conv:
  "df_vul vehiculos_sel df = filter (\<lambda>r. \<exists>v\<in>set vehiculos_sel. tipo_vehiculo r = Some v) df"
  unfolding df_vul_def isin_def
  by (rule filter_cong) (auto split: option.splits)

text \<open>
  C4. For every frame \<open>load_data\<close> returns and every selection that is not empty and is
  taken from the options of the control (the vehicle types that occur in the frame),
  the chart is drawn from the rows of the selected vehicle types alone: a type that is not
  selected has no bar at all, and the bars of a selected type, over all severities, sum
  to 100. The percentages are real numbers here, so the sum is exact.
\<close>

theorem vista_vul_percent:
  assumes "load_data to_datetime transform raw = Inr df"
    and "vehiculos_sel \<noteq> []"
    and "set vehiculos_sel \<subseteq> set (todos_los_vehiculos df)"
  shows "\<exists>fig. vista_vul vehiculos_sel df = Some fig
     \<and> df_vul vehiculos_sel df
         = filter (\<lambda>r. \<exists>v\<in>set vehiculos_sel. tipo_vehiculo r = Some v) df
     \<and> fig = fig_vul (df_vul vehiculos_sel df)
     \<and> (\<forall>v. v \<notin> set vehiculos_sel \<longrightarrow> barras_de v fig = [])
     \<and> (\<forall>v\<in>set vehiculos_sel. barras_de v fig \<noteq> [] \<and> sum_list (barras_de v fig) = 100)"
proof -
  let ?d = "df_vul vehiculos_sel df"
  have v: "vista_vul vehiculos_sel df = Some (fig_vul ?d)"
    using assms(2) by (simp add: vista_vul_def)
  have un: "barras_de v (fig_vul ?d) = []" if "v \<notin> set vehiculos_sel" for v
    using that by (simp add: barras_de_fig_vul n_vs_df_vul_unselected)
  have sel: "barras_de v (fig_vul ?d) \<noteq> [] \<and> sum_list (barras_de v (fig_vul ?d)) = 100"
    if "v \<in> set vehiculos_sel" for v
  proof -
    from that assms(3) have "v \<in> set (todos_los_vehiculos df)" by blast
    then obtain r where r: "r \<in> set df" "tipo_vehiculo r = Some v"
      by (auto simp: todos_los_vehiculos_def set_unique set_dropna image_iff)
    from load_data_lesividad [OF assms(1) r(1)] obtain s where s: "lesividad r = Some s" ..
    have "r \<in> set ?d"
      using r that by (simp add: df_vul_def isin_def)
    from total_barra_pos [OF this r(2) s] have "0 < total_barra ?d v" .
    then have "sum_list (barras_de v (fig_vul ?d)) = 100"
      by (simp add: sum_barras_de)
    then show ?thesis by auto
  qed
  show ?thesis
    using v un sel df_vul_conv [of vehiculos_sel df] by blast
qed

lemma tabla_vista_vul:
  "todos_los_vehiculos tabla = [''Motocicleta > 125cc'', ''Turismo'']"
  "vista_vul [''Turismo''] tabla
     = Some [(''Ingreso superior a 24 horas'', [(''Turismo'', 50)]),
             (''Fallecido 24 horas'', [(''Turismo'', 50)])]"
  by (simp_all add: todos_los_vehiculos_def vista_vul_def fig_vul_def df_vul_def trazas_vul_def
      porcentaje_def total_barra_def n_vs_def isin_def orden_lesividad_def
      unique_def dropna_def tabla_def label_defs Let_def)

text \<open>
  The rule at the example frame with \<open>Turismo\<close> selected: two bars of 50, and no bar for
  the motorcycle.
\<close>

theorem vista_vul_percent_witness:
  "load_data to_datetime_ej transform_ej tabla_raw = Inr tabla
   \<and> todos_los_vehiculos tabla = [''Motocicleta > 125cc'', ''Turismo'']
   \<and> vista_vul [''Turismo''] tabla
       = Some [(''Ingreso superior a 24 horas'', [(''Turismo'', 50)]),
               (''Fallecido 24 horas'', [(''Turismo'', 50)])]
   \<and> sum_list (barras_de ''Turismo''
        [(''Ingreso superior a 24 horas'', [(''Turismo'', 50)]),
         (''Fallecido 24 horas'', [(''Turismo'', 50)])]) = 100
   \<and> barras_de ''Motocicleta > 125cc''
        [(''Ingreso superior a 24 horas'', [(''Turismo'', 50)]),
         (''Fallecido 24 horas'', [(''Turismo'', 50)])] = []"
proof -
  have ne: "[''Turismo''] \<noteq> []" by simp
  have sub: "set [''Turismo''] \<subseteq> set (todos_los_vehiculos tabla)"
    by (simp add: tabla_vista_vul)
  have a: "''Turismo'' \<in> set [''Turismo'']" "''Motocicleta > 125cc'' \<notin> set [''Turismo'']"
    by simp_all
  from vista_vul_percent [OF tabla_load ne sub] obtain fig where
    fig: "vista_vul [''Turismo''] tabla = Some fig"
    and un: "\<forall>v. v \<notin> set [''Turismo''] \<longrightarrow> barras_de v fig = []"
    and sel: "\<forall>v\<in>set [''Turismo'']. barras_de v fig \<noteq> [] \<and> sum_list (barras_de v fig) = 100"
    by blast
  have "fig = [(''Ingreso superior a 24 horas'', [(''Turismo'', 50)]),
               (''Fallecido 24 horas'', [(''Turismo'', 50)])]"
    using fig tabla_vista_vul(2) by simp
  then show ?thesis
    using tabla_load tabla_vista_vul un sel a by blast
qed

section \<open>Claims about alcohol at the weekend\<close>

lemma set_counts:
  "set (counts d)
     = (\<lambda>(h, dia). (h, dia, length (filter (\<lambda>r. clave r = Some (h, dia)) d)))
         ` {k. \<exists>r\<in>set d. clave r = Some k}"
  by (simp add: counts_def set_map_filter_conv)

lemma counts_iff:
  "(h, dia, n) \<in> set (counts d)
     \<longleftrightarrow> (\<exists>r\<in>set d. clave r = Some (h, dia))
         \<and> n = length (filter (\<lambda>r. clave r = Some (h, dia)) d)"
  by (auto simp: set_counts)

lemma distinct_counts_keys: "distinct (map (\<lambda>(h, dia, n). (h, dia)) (counts d))"
proof -
  have "map (\<lambda>(h, dia, n). (h, dia)) (counts d)
      = sort_key (\<lambda>(h, dia). (h, codigo dia)) (remdups (List.map_filter clave d))"
    by (simp add: counts_def o_def case_prod_beta)
  then show ?thesis by simp
qed

lemma distinct_map_filter_fst:
  "distinct (map (\<lambda>(h, dia, n). (h, dia)) cs) \<Longrightarrow>
     distinct (map fst (map (\<lambda>(h, d, n). (h, n)) (filter (\<lambda>(h, d, n). d = dia) cs)))"
proof (induction cs)
  case Nil
  then show ?case by simp
next
  case (Cons c cs)
  obtain h d n where c: "c = (h, d, n)" by (cases c)
  from Cons.prems have nin: "(h, d) \<notin> set (map (\<lambda>(h, dia, n). (h, dia)) cs)"
    and dist: "distinct (map (\<lambda>(h, dia, n). (h, dia)) cs)"
    by (simp_all add: c)
  show ?case
  proof (cases "d = dia")
    case True
    show ?thesis
      using Cons.IH [OF dist] nin True by (fastforce simp: c image_iff)
  next
    case False
    then show ?thesis
      using Cons.IH [OF dist] by (simp add: c)
  qed
qed

lemma fig_alc_days:
  "map fst (fig_alc cs) = unique (map (\<lambda>(h, d, n). d) cs)"
  by (simp add: fig_alc_def o_def)

lemma fig_alc_points:
  "(dia, pts) \<in> set (fig_alc cs) \<Longrightarrow>
     pts = map (\<lambda>(h, d, n). (h, n)) (filter (\<lambda>(h, d, n). d = dia) cs)"
  by (auto simp: fig_alc_def)

lemma fig_alc_point_iff:
  "(dia, pts) \<in> set (fig_alc cs) \<Longrightarrow> (h, n) \<in> set pts \<longleftrightarrow> (h, dia, n) \<in> set cs"
  by (drule fig_alc_points) force

lemma clave_Some:
  "clave r = Some (h, dia) \<longleftrightarrow> hora_num r = Some h \<and> dia_semana r = Some dia"
  by (auto simp: clave_def split: option.splits)

lemma df_alc_count:
  "dia \<in> set dias_sel \<Longrightarrow>
     filter (\<lambda>r. clave r = Some (h, dia)) (df_alc dias_sel df)
       = filter (\<lambda>r. alcohol r \<and> dia_semana r = Some dia \<and> hora_num r = Some h) df"
  unfolding df_alc_def filter_filter
  by (rule filter_cong) (auto simp: clave_Some isin_def)

lemma df_alc_clave:
  "(\<exists>r\<in>set (df_alc dias_sel df). clave r = Some (h, dia))
     \<longleftrightarrow> dia \<in> set dias_sel
         \<and> (\<exists>r\<in>set df. alcohol r \<and> dia_semana r = Some dia \<and> hora_num r = Some h)"
  by (auto simp: df_alc_def clave_Some isin_def)

lemma load_data_hora_num:
  assumes "load_data to_datetime transform raw = Inr df" and "r \<in> set df" and "hora_num r = Some h"
  shows "h \<le> 23"
proof -
  from assms(2) obtain i where i: "i < length df" and r: "r = df ! i"
    by (auto simp: in_set_conv_nth)
  have i': "i < length raw"
    using i load_data_length [OF assms(1)] by simp
  from load_data_row [OF assms(1) i'] obtain f lo la where
    "df ! i = preparar (raw ! i) f lo la" by blast
  then have "hora_num (df ! i) = map_option dt_hour (to_datetime_coerce (hora (raw ! i)))"
    by (simp add: preparar_fields)
  then show ?thesis
    using r assms(3) dt_hour_lt by auto
qed

lemma tabla_df_alc:
  "df_alc [Viernes, Sabado] tabla = [tabla ! 1]"
  "df_alc [Domingo] tabla = []"
  by (simp_all add: df_alc_def isin_def tabla_def label_defs)

lemma tabla_fila_1: "clave (tabla ! Suc 0) = Some (19, Sabado)"
  by (simp add: clave_def tabla_def)

lemma tabla_counts: "counts [tabla ! 1] = [(19, Sabado, 1)]"
  by (simp add: counts_def tabla_fila_1)

lemma tabla_fig_alc: "fig_alc [(19, Sabado, 1)] = [(Sabado, [(19, 1)])]"
  by (simp add: fig_alc_def unique_def)

lemma tabla_vista_alc: "vista_alc [Viernes, Sabado] tabla = Grafico [(Sabado, [(19, 1)])]"
  unfolding vista_alc_def Let_def tabla_df_alc(1) tabla_counts tabla_fig_alc by simp

text \<open>
  C3 says that a selection that is not empty gives one series for every selected day,
  also for a day without any positive test. In the example frame the only positive test
  is on a Saturday: with Friday and Saturday selected the chart has the one line of the
  Saturday and none for the Friday, since \<open>groupby(..., observed=True)\<close> makes rows only
  for the pairs of hour and day that occur.
\<close>

theorem vista_alc_counterexample:
  "vista_alc [Viernes, Sabado] tabla = Grafico [(Sabado, [(19, 1)])]
   \<and> Viernes \<in> set [Viernes, Sabado]
   \<and> Viernes \<notin> set (map fst [(Sabado, [(19 :: nat, 1 :: nat)])])
   \<and> length [(Sabado, [(19 :: nat, 1 :: nat)])] \<noteq> length [Viernes, Sabado]"
  using tabla_vista_alc by (simp add: Viernes_def Sabado_def)

text \<open>
  C3, amended. For every frame \<open>load_data\<close> returns and every selection of days: when
  no row with a positive test falls on a selected day, the notice is shown in place of
  the chart, so always for the empty selection. When some row does, the chart is shown:
  it has one series for every selected day that has a row with a positive test and an
  hour, and no series for the other selected days. The series of a day has one point for
  every hour with such a row, the hour from 0 to 23 and the count the number of those
  rows; an hour without such a row has no point.
\<close>

theorem vista_alc_series:
  assumes "load_data to_datetime transform raw = Inr df"
  shows "((\<forall>r\<in>set df. alcohol r \<longrightarrow> (\<forall>dia\<in>set dias_sel. dia_semana r \<noteq> Some dia))
          \<longrightarrow> vista_alc dias_sel df = Aviso)
     \<and> ((\<exists>r\<in>set df. alcohol r \<and> (\<exists>dia\<in>set dias_sel. dia_semana r = Some dia)) \<longrightarrow>
          (\<exists>fig. vista_alc dias_sel df = Grafico fig
             \<and> distinct (map fst fig)
             \<and> set (map fst fig)
                 = {dia \<in> set dias_sel.
                      \<exists>r\<in>set df. alcohol r \<and> dia_semana r = Some dia \<and> hora_num r \<noteq> None}
             \<and> (\<forall>dia pts. (dia, pts) \<in> set fig \<longrightarrow>
                   distinct (map fst pts)
                 \<and> (\<forall>h n. (h, n) \<in> set pts \<longleftrightarrow>
                        0 < n
                      \<and> n = length (filter (\<lambda>r. alcohol r \<and> dia_semana r = Some dia
                                               \<and> hora_num r = Some h) df))
                 \<and> (\<forall>h n. (h, n) \<in> set pts \<longrightarrow> h \<le> 23))))
     \<and> vista_alc [] df = Aviso"
proof -
  let ?d = "df_alc dias_sel df"
  let ?n = "\<lambda>dia h. length (filter (\<lambda>r. alcohol r \<and> dia_semana r = Some dia \<and> hora_num r = Some h) df)"
  have e: "vista_alc [] df = Aviso"
    by (simp add: vista_alc_def df_alc_def isin_def split: option.splits)
  have a: "vista_alc dias_sel df = Aviso \<longleftrightarrow> ?d = []"
    by (simp add: vista_alc_def Let_def)
  have cnt: "(h, dia, n) \<in> set (counts ?d) \<longleftrightarrow> dia \<in> set dias_sel \<and> 0 < n \<and> n = ?n dia h" for h dia n
  proof -
    have "(\<exists>r\<in>set df. alcohol r \<and> dia_semana r = Some dia \<and> hora_num r = Some h) \<longleftrightarrow> 0 < ?n dia h"
      by (auto simp: length_greater_0_conv filter_empty_conv simp del: length_greater_0_conv)
    then show ?thesis
      unfolding counts_iff df_alc_clave by (auto simp: df_alc_count)
  qed
  have days: "set (map (\<lambda>(h, d, n). d) (counts ?d))
      = {dia \<in> set dias_sel. \<exists>r\<in>set df. alcohol r \<and> dia_semana r = Some dia \<and> hora_num r \<noteq> None}"
    (is "?L = ?R")
  proof (intro set_eqI iffI)
    fix dia assume "dia \<in> ?L"
    then obtain h n where "(h, dia, n) \<in> set (counts ?d)" by auto
    then have "dia \<in> set dias_sel" "\<exists>r\<in>set ?d. clave r = Some (h, dia)"
      using cnt counts_iff by blast+
    then show "dia \<in> ?R"
      by (auto simp: df_alc_clave)
  next
    fix dia assume "dia \<in> ?R"
    then obtain r h where "dia \<in> set dias_sel" "r \<in> set df" "alcohol r" "dia_semana r = Some dia"
      "hora_num r = Some h" by auto
    then have "\<exists>r\<in>set ?d. clave r = Some (h, dia)"
      unfolding df_alc_clave by blast
    then have "(h, dia, length (filter (\<lambda>r. clave r = Some (h, dia)) ?d)) \<in> set (counts ?d)"
      by (simp add: counts_iff)
    then show "dia \<in> ?L" by force
  qed
  have fig: "distinct (map fst fig)
        \<and> set (map fst fig)
            = {dia \<in> set dias_sel.
                 \<exists>r\<in>set df. alcohol r \<and> dia_semana r = Some dia \<and> hora_num r \<noteq> None}
        \<and> (\<forall>dia pts. (dia, pts) \<in> set fig \<longrightarrow>
              distinct (map fst pts)
            \<and> (\<forall>h n. (h, n) \<in> set pts \<longleftrightarrow> 0 < n \<and> n = ?n dia h)
            \<and> (\<forall>h n. (h, n) \<in> set pts \<longrightarrow> h \<le> 23))"
    if "vista_alc dias_sel df = Grafico fig" for fig
  proof -
    from that have f: "fig = fig_alc (counts ?d)"
      by (simp add: vista_alc_def Let_def split: if_splits)
    have d1: "distinct (map fst fig)"
      unfolding f fig_alc_days by (rule distinct_unique)
    have d2: "set (map fst fig) = {dia \<in> set dias_sel.
                 \<exists>r\<in>set df. alcohol r \<and> dia_semana r = Some dia \<and> hora_num r \<noteq> None}"
      unfolding f fig_alc_days set_unique by (rule days)
    have p: "distinct (map fst pts)
            \<and> (\<forall>h n. (h, n) \<in> set pts \<longleftrightarrow> 0 < n \<and> n = ?n dia h)
            \<and> (\<forall>h n. (h, n) \<in> set pts \<longrightarrow> h \<le> 23)"
      if m: "(dia, pts) \<in> set fig" for dia pts
    proof -
      have m': "(dia, pts) \<in> set (fig_alc (counts ?d))" using m f by simp
      have "dia \<in> set (map fst fig)" using m by force
      then have sel: "dia \<in> set dias_sel" unfolding d2 by simp
      have p1: "distinct (map fst pts)"
        unfolding fig_alc_points [OF m']
        by (rule distinct_map_filter_fst) (rule distinct_counts_keys)
      have p2: "(h, n) \<in> set pts \<longleftrightarrow> 0 < n \<and> n = ?n dia h" for h n
        unfolding fig_alc_point_iff [OF m'] cnt using sel by simp
      have p3: "h \<le> 23" if "(h, n) \<in> set pts" for h n
      proof -
        from iffD1 [OF p2 that] have "filter (\<lambda>r. alcohol r \<and> dia_semana r = Some dia \<and> hora_num r = Some h) df \<noteq> []"
          by auto
        then obtain r where "r \<in> set df" "hora_num r = Some h"
          by (auto simp: filter_empty_conv)
        then show ?thesis using load_data_hora_num [OF assms] by blast
      qed
      have p2': "\<forall>h n. (h, n) \<in> set pts \<longleftrightarrow> 0 < n \<and> n = ?n dia h"
        by (intro allI) (rule p2)
      have p3': "\<forall>h n. (h, n) \<in> set pts \<longrightarrow> h \<le> 23"
        by (intro allI impI) (rule p3)
      show ?thesis
        by (rule conjI [OF p1 conjI [OF p2' p3']])
    qed
    have q: "\<forall>dia pts. (dia, pts) \<in> set fig \<longrightarrow>
              distinct (map fst pts)
            \<and> (\<forall>h n. (h, n) \<in> set pts \<longleftrightarrow> 0 < n \<and> n = ?n dia h)
            \<and> (\<forall>h n. (h, n) \<in> set pts \<longrightarrow> h \<le> 23)"
      by (intro allI impI) (rule p)
    show ?thesis
      by (rule conjI [OF d1 conjI [OF d2 q]])
  qed
  have emp: "?d = [] \<longleftrightarrow>
      (\<forall>r\<in>set df. alcohol r \<longrightarrow> (\<forall>dia\<in>set dias_sel. dia_semana r \<noteq> Some dia))"
    by (auto simp: df_alc_def isin_def filter_empty_conv split: option.splits)
  have n: "(\<forall>r\<in>set df. alcohol r \<longrightarrow> (\<forall>dia\<in>set dias_sel. dia_semana r \<noteq> Some dia))
          \<longrightarrow> vista_alc dias_sel df = Aviso"
    using a emp by simp
  have g: "(\<exists>r\<in>set df. alcohol r \<and> (\<exists>dia\<in>set dias_sel. dia_semana r = Some dia)) \<longrightarrow>
          (\<exists>fig. vista_alc dias_sel df = Grafico fig
             \<and> distinct (map fst fig)
             \<and> set (map fst fig)
                 = {dia \<in> set dias_sel.
                      \<exists>r\<in>set df. alcohol r \<and> dia_semana r = Some dia \<and> hora_num r \<noteq> None}
             \<and> (\<forall>dia pts. (dia, pts) \<in> set fig \<longrightarrow>
                   distinct (map fst pts)
                 \<and> (\<forall>h n. (h, n) \<in> set pts \<longleftrightarrow> 0 < n \<and> n = ?n dia h)
                 \<and> (\<forall>h n. (h, n) \<in> set pts \<longrightarrow> h \<le> 23)))"
  proof
    assume "\<exists>r\<in>set df. alcohol r \<and> (\<exists>dia\<in>set dias_sel. dia_semana r = Some dia)"
    then have "?d \<noteq> []"
      unfolding emp by blast
    then have v: "vista_alc dias_sel df = Grafico (fig_alc (counts ?d))"
      by (simp add: vista_alc_def Let_def)
    show "\<exists>fig. vista_alc dias_sel df = Grafico fig
             \<and> distinct (map fst fig)
             \<and> set (map fst fig)
                 = {dia \<in> set dias_sel.
                      \<exists>r\<in>set df. alcohol r \<and> dia_semana r = Some dia \<and> hora_num r \<noteq> None}
             \<and> (\<forall>dia pts. (dia, pts) \<in> set fig \<longrightarrow>
                   distinct (map fst pts)
                 \<and> (\<forall>h n. (h, n) \<in> set pts \<longleftrightarrow> 0 < n \<and> n = ?n dia h)
                 \<and> (\<forall>h n. (h, n) \<in> set pts \<longrightarrow> h \<le> 23))"
      by (rule exI [of _ "fig_alc (counts ?d)"]) (rule conjI [OF v fig [OF v]])
  qed
  show ?thesis
    by (rule conjI [OF n conjI [OF g e]])
qed

text \<open>
  The amended rule at the example frame: the empty selection and the Sunday give the
  notice; Friday and Saturday give the line of the Saturday with the one row at 19 h.
\<close>

theorem vista_alc_series_witness:
  "load_data to_datetime_ej transform_ej tabla_raw = Inr tabla
   \<and> vista_alc [] tabla = Aviso
   \<and> vista_alc [Viernes, Sabado] tabla = Grafico [(Sabado, [(19, 1)])]
   \<and> set (map fst [(Sabado, [(19 :: nat, 1 :: nat)])]) = {Sabado}
   \<and> length (filter (\<lambda>r. alcohol r \<and> dia_semana r = Some Sabado \<and> hora_num r = Some 19)
         tabla) = 1
   \<and> vista_alc [Domingo] tabla = Aviso \<and> df_alc [Domingo] tabla = []"
proof -
  note T = vista_alc_series [OF tabla_load]
  have a: "vista_alc [] tabla = Aviso"
    using T [of "[]"] by (rule conjunct2 [THEN conjunct2])
  have b: "vista_alc [Viernes, Sabado] tabla = Grafico [(Sabado, [(19, 1)])]"
    by (rule tabla_vista_alc)
  have c: "df_alc [Domingo] tabla = []"
    by (rule tabla_df_alc(2))
  have "\<forall>r\<in>set tabla. alcohol r \<longrightarrow> (\<forall>dia\<in>set [Domingo]. dia_semana r \<noteq> Some dia)"
    by (simp add: tabla_def label_defs)
  then have d: "vista_alc [Domingo] tabla = Aviso"
    using T [of "[Domingo]", THEN conjunct1] by blast
  have ex: "\<exists>r\<in>set tabla. alcohol r \<and> (\<exists>dia\<in>set [Viernes, Sabado]. dia_semana r = Some dia)"
    by (simp add: tabla_def label_defs)
  have "\<forall>dia pts. (dia, pts) \<in> set [(Sabado, [(19 :: nat, 1 :: nat)])] \<longrightarrow>
          (\<forall>h n. (h, n) \<in> set pts \<longleftrightarrow>
             0 < n \<and> n = length (filter (\<lambda>r. alcohol r \<and> dia_semana r = Some dia
                                              \<and> hora_num r = Some h) tabla))"
    using T [of "[Viernes, Sabado]", THEN conjunct2, THEN conjunct1] ex b by auto
  then have "(19 :: nat, 1 :: nat) \<in> set [(19, 1)] \<longleftrightarrow>
      0 < (1 :: nat) \<and> 1 = length (filter (\<lambda>r. alcohol r \<and> dia_semana r = Some Sabado
                                              \<and> hora_num r = Some 19) tabla)"
    by (meson list.set_intros(1))
  then have f: "length (filter (\<lambda>r. alcohol r \<and> dia_semana r = Some Sabado
                                   \<and> hora_num r = Some 19) tabla) = 1"
    by simp
  show ?thesis
    using tabla_load a b c d f by (simp add: Sabado_def)
qed

end
